theory Spec2Isabelle
  imports Main "HOL-Library.Word"
begin

section \<open>Data model of the HTTP client wrapper\<close>

text \<open>
  The wrapper (\<^verbatim>\<open>includes/http_client.hpp\<close>, \<^verbatim>\<open>src/http_client.cpp\<close>) owns one
  libcurl easy handle per \<^verbatim>\<open>HttpClient\<close> object.  The data model is LP64: \<^verbatim>\<open>long\<close> is a
  64-bit two's complement integer (read with \<open>sint\<close>) and \<^verbatim>\<open>size_t\<close> a natural number
  below \<open>2 ^ 64\<close>.  A \<^verbatim>\<open>std::string\<close> is a list of bytes; it may contain zero bytes.
\<close>

type_synonym long = "64 word"

type_synonym addr = nat

type_synonym CURL = nat

type_synonym CURLcode = nat

type_synonym header_list = "(string \<times> string) list"

record Response =
  status :: long
  body :: string
  headers :: header_list

text \<open>The one exception class the header declares; its argument is \<^verbatim>\<open>what()\<close>.\<close>

datatype HttpError = HttpError string

record Options =
  timeout_ms :: long
  follow_redirects :: bool
  user_agent :: "string option"
  verify_peer :: bool
  verify_host :: bool

text \<open>The constructor \<^verbatim>\<open>Options()\<close>.\<close>

definition Options_default :: Options where
  "Options_default =
     \<lparr>timeout_ms = 15000, follow_redirects = True,
      user_agent = Some ''HttpClient/1.0'', verify_peer = True, verify_host = True\<rparr>"

text \<open>The private members \<^verbatim>\<open>h_\<close>, \<^verbatim>\<open>opt_\<close>, \<^verbatim>\<open>body_acc_\<close> and \<^verbatim>\<open>hdr_acc_\<close> of
  \<^verbatim>\<open>HttpClient\<close> (an Isabelle name cannot end in an underscore, so the member prefix
  \<open>m_\<close> replaces the suffix); \<open>m_h = None\<close> is the null pointer.\<close>

record HttpClient =
  m_h :: "CURL option"
  m_opt :: Options
  m_body_acc :: string
  m_hdr_acc :: header_list

subsection \<open>The transfer engine\<close>

text \<open>
  libcurl is not part of the repository.  A handle is modelled by what the wrapper can
  observe of it: the options set on it since the last reset, and the response code that
  \<^verbatim>\<open>curl_easy_getinfo\<close> reports.
\<close>

datatype CURLoption =
    CURLOPT_WRITEFUNCTION | CURLOPT_WRITEDATA
  | CURLOPT_HEADERFUNCTION | CURLOPT_HEADERDATA
  | CURLOPT_TIMEOUT_MS | CURLOPT_FOLLOWLOCATION | CURLOPT_USERAGENT
  | CURLOPT_SSL_VERIFYPEER | CURLOPT_SSL_VERIFYHOST
  | CURLOPT_HTTPGET | CURLOPT_POST | CURLOPT_URL
  | CURLOPT_POSTFIELDS | CURLOPT_POSTFIELDSIZE | CURLOPT_HTTPHEADER

datatype callback = Write_body_cb | Write_header_cb

text \<open>
  The value handed to \<^verbatim>\<open>curl_easy_setopt\<close>: a long, a zero-terminated string, a function
  pointer, the address of a client object, a pointer to a byte buffer (modelled by the
  buffer it points to) or a string list.
\<close>

datatype optval =
    Long long | Str string | Fun callback | Ptr addr | Data string | Slist "string list"

type_synonym setopts = "CURLoption \<rightharpoonup> optval"

record easy =
  options :: setopts
  response_code :: long

text \<open>What the engine does during one \<^verbatim>\<open>curl_easy_perform\<close>: the callback invocations it
  makes, in order, the code it returns and the response code it leaves in the handle.\<close>

datatype event = Header_line string | Body_chunk string

record transfer =
  callbacks :: "event list"
  code :: CURLcode
  http_code :: long

text \<open>
  The environment of one call into the wrapper: the return code of
  \<^verbatim>\<open>curl_global_init\<close>, the pointer \<^verbatim>\<open>curl_easy_init\<close> returns, the transfer the network
  produces for a configured handle, and \<^verbatim>\<open>curl_easy_strerror\<close>.
\<close>

record engine =
  global_init_rc :: int
  easy_init_ptr :: "CURL option"
  wire :: "setopts \<Rightarrow> transfer"
  strerror :: "CURLcode \<Rightarrow> string"

text \<open>
  The process: the once-flag of \<^verbatim>\<open>global_init_once\<close>, the live easy handles, the memory
  holding client objects (by address) and the addresses at which a client is currently
  constructed.
\<close>

record world =
  g_curl_once :: bool
  handles :: "CURL \<rightharpoonup> easy"
  objs :: "addr \<Rightarrow> HttpClient"
  constructed :: "addr set"

definition CURLE_OK :: CURLcode where
  "CURLE_OK = 0"

definition CURLE_WRITE_ERROR :: CURLcode where
  "CURLE_WRITE_ERROR = 23"

definition CURLE_BAD_FUNCTION_ARGUMENT :: CURLcode where
  "CURLE_BAD_FUNCTION_ARGUMENT = 43"

definition CR :: char where
  "CR = CHR 0x0D"

definition LF :: char where
  "LF = CHR 0x0A"

definition TAB :: char where
  "TAB = CHR 0x09"

definition NUL :: char where
  "NUL = CHR 0x00"

definition CRLF :: string where
  "CRLF = [CR, LF]"

section \<open>String primitives used by the wrapper\<close>

text \<open>\<^verbatim>\<open>s.c_str()\<close> as its receiver reads it: the bytes before the first zero byte.\<close>

definition c_str :: "string \<Rightarrow> string" where
  "c_str s = takeWhile (\<lambda>c. c \<noteq> NUL) s"

text \<open>\<^verbatim>\<open>line.find(ch)\<close>: the index of the first occurrence, \<open>None\<close> for \<^verbatim>\<open>npos\<close>.\<close>

fun find_char :: "char \<Rightarrow> string \<Rightarrow> nat option" where
  "find_char ch [] = None"
| "find_char ch (x # xs) = (if x = ch then Some 0 else map_option Suc (find_char ch xs))"

text \<open>\<^verbatim>\<open>line.find(pat)\<close> for a string pattern.\<close>

fun find_str :: "string \<Rightarrow> string \<Rightarrow> nat option" where
  "find_str pat [] = (if pat = [] then Some 0 else None)"
| "find_str pat (x # xs) =
     (if take (length pat) (x # xs) = pat then Some 0
      else map_option Suc (find_str pat xs))"

text \<open>\<^verbatim>\<open>line.rfind(pat, 0) == 0\<close>: the only candidate position is 0, so this is
  "\<open>line\<close> begins with \<open>pat\<close>".\<close>

definition rfind0_is0 :: "string \<Rightarrow> string \<Rightarrow> bool" where
  "rfind0_is0 line pat = (take (length pat) line = pat)"

text \<open>\<^verbatim>\<open>s.substr(pos, count)\<close> where \<open>count = None\<close> is \<^verbatim>\<open>npos\<close>.  The wrapper only calls
  it with \<open>pos \<le> length s\<close>, where it does not throw.\<close>

definition substr :: "string \<Rightarrow> nat \<Rightarrow> nat option \<Rightarrow> string" where
  "substr s pos count =
     (case count of None \<Rightarrow> drop pos s | Some n \<Rightarrow> take n (drop pos s))"

text \<open>The loop \<^verbatim>\<open>while (start < line.size() && (line[start] == ' ' || line[start] == '\t')) ++start;\<close>\<close>

function skip_blanks :: "string \<Rightarrow> nat \<Rightarrow> nat" where
  "skip_blanks line start =
     (if start < length line \<and> (line ! start = CHR '' '' \<or> line ! start = TAB)
      then skip_blanks line (Suc start) else start)"
  by pat_completeness auto
termination
  by (relation "measure (\<lambda>(line, start). length line - start)") auto

definition split_header_line :: "string \<Rightarrow> string \<times> string" where
  "split_header_line line =
     (case find_char CHR '':'' line of
        None \<Rightarrow> (line, '''')
      | Some pos \<Rightarrow>
          (let start = skip_blanks line (pos + 1)
           in (substr line 0 (Some pos), substr line start None)))"

section \<open>The write callbacks\<close>

text \<open>
  Both callbacks receive \<open>size * nmemb\<close> bytes and the object \<open>userdata\<close> points to; they
  return the number of bytes consumed and the updated object.
\<close>

definition write_body_cb :: "string \<Rightarrow> HttpClient \<Rightarrow> nat \<times> HttpClient" where
  "write_body_cb chunk self =
     (length chunk, self\<lparr>m_body_acc := m_body_acc self @ chunk\<rparr>)"

definition write_header_cb :: "string \<Rightarrow> HttpClient \<Rightarrow> nat \<times> HttpClient" where
  "write_header_cb line self =
     (let total = length line
      in if rfind0_is0 line ''HTTP/'' then (total, self\<lparr>m_hdr_acc := []\<rparr>)
         else if line \<noteq> [] \<and> line \<noteq> CRLF then
           (let kv = split_header_line (substr line 0 (find_str CRLF line))
            in (total, self\<lparr>m_hdr_acc := m_hdr_acc self @ [kv]\<rparr>))
         else (total, self))"

section \<open>The engine's side of the handle interface\<close>

text \<open>
  The wrapper ignores the return value of \<^verbatim>\<open>curl_easy_setopt\<close>.  On a null pointer, and
  on a pointer that is not a live handle, the engine changes nothing.
\<close>

definition fresh_easy :: easy where
  "fresh_easy = \<lparr>options = Map.empty, response_code = 0\<rparr>"

definition curl_easy_reset :: "CURL option \<Rightarrow> world \<Rightarrow> world" where
  "curl_easy_reset h w =
     (case h of
        None \<Rightarrow> w
      | Some p \<Rightarrow>
          (case handles w p of
             None \<Rightarrow> w
           | Some e \<Rightarrow> w\<lparr>handles := (handles w)(p \<mapsto> fresh_easy)\<rparr>))"

definition curl_easy_setopt :: "CURL option \<Rightarrow> CURLoption \<Rightarrow> optval \<Rightarrow> world \<Rightarrow> world" where
  "curl_easy_setopt h opt v w =
     (case h of
        None \<Rightarrow> w
      | Some p \<Rightarrow>
          (case handles w p of
             None \<Rightarrow> w
           | Some e \<Rightarrow> w\<lparr>handles := (handles w)(p \<mapsto> e\<lparr>options := (options e)(opt \<mapsto> v)\<rparr>)\<rparr>))"

text \<open>The function a registered function pointer designates.\<close>

fun call_cb :: "callback \<Rightarrow> string \<Rightarrow> HttpClient \<Rightarrow> nat \<times> HttpClient" where
  "call_cb Write_body_cb = write_body_cb"
| "call_cb Write_header_cb = write_header_cb"

text \<open>
  The engine hands a piece of data to the callback registered for its stream, with the
  registered user pointer.  The flag says whether the callback consumed all of it: a
  callback returning another count aborts the transfer.  With no callback of the wrapper
  registered the data does not reach the wrapper.
\<close>

definition deliver :: "optval option \<Rightarrow> optval option \<Rightarrow> string \<Rightarrow> world \<Rightarrow> bool \<times> world" where
  "deliver fn userdata bytes w =
     (case fn of
        Some (Fun cb) \<Rightarrow>
          (case userdata of
             Some (Ptr a) \<Rightarrow>
               (let r = call_cb cb bytes (objs w a)
                in (fst r = length bytes, w\<lparr>objs := (objs w)(a := snd r)\<rparr>))
           | _ \<Rightarrow> (True, w))
      | _ \<Rightarrow> (True, w))"

fun run_callbacks :: "setopts \<Rightarrow> event list \<Rightarrow> world \<Rightarrow> bool \<times> world" where
  "run_callbacks T [] w = (True, w)"
| "run_callbacks T (Header_line l # evs) w =
     (let r = deliver (T CURLOPT_HEADERFUNCTION) (T CURLOPT_HEADERDATA) l w
      in if fst r then run_callbacks T evs (snd r) else (False, snd r))"
| "run_callbacks T (Body_chunk c # evs) w =
     (let r = deliver (T CURLOPT_WRITEFUNCTION) (T CURLOPT_WRITEDATA) c w
      in if fst r then run_callbacks T evs (snd r) else (False, snd r))"

definition curl_easy_perform :: "engine \<Rightarrow> CURL option \<Rightarrow> world \<Rightarrow> CURLcode \<times> world" where
  "curl_easy_perform env h w =
     (case h of
        None \<Rightarrow> (CURLE_BAD_FUNCTION_ARGUMENT, w)
      | Some p \<Rightarrow>
          (case handles w p of
             None \<Rightarrow> (CURLE_BAD_FUNCTION_ARGUMENT, w)
           | Some e \<Rightarrow>
               (let t = wire env (options e);
                    r = run_callbacks (options e) (callbacks t) w;
                    w' = snd r
                in (if fst r then code t else CURLE_WRITE_ERROR,
                    w'\<lparr>handles := (handles w')(p \<mapsto> e\<lparr>response_code := http_code t\<rparr>)\<rparr>))))"

text \<open>\<^verbatim>\<open>curl_easy_getinfo(h, CURLINFO_RESPONSE_CODE, &code)\<close>: the new value of \<open>code\<close>.\<close>

definition curl_easy_getinfo_response_code :: "CURL option \<Rightarrow> world \<Rightarrow> long \<Rightarrow> long" where
  "curl_easy_getinfo_response_code h w code0 =
     (case h of
        None \<Rightarrow> code0
      | Some p \<Rightarrow> (case handles w p of None \<Rightarrow> code0 | Some e \<Rightarrow> response_code e))"

definition curl_easy_init :: "engine \<Rightarrow> world \<Rightarrow> CURL option \<times> world" where
  "curl_easy_init env w =
     (case easy_init_ptr env of
        None \<Rightarrow> (None, w)
      | Some p \<Rightarrow> (Some p, w\<lparr>handles := (handles w)(p \<mapsto> fresh_easy)\<rparr>))"

definition curl_easy_cleanup :: "CURL \<Rightarrow> world \<Rightarrow> world" where
  "curl_easy_cleanup p w = w\<lparr>handles := (handles w)(p := None)\<rparr>"

text \<open>\<^verbatim>\<open>Slist::add\<close>: \<open>None\<close> is the null list pointer; the engine copies the C string.\<close>

definition Slist_add :: "string list option \<Rightarrow> string \<Rightarrow> string list option" where
  "Slist_add ptr hd_line =
     (case ptr of None \<Rightarrow> Some [c_str hd_line] | Some l \<Rightarrow> Some (l @ [c_str hd_line]))"

section \<open>The member functions of HttpClient\<close>

definition apply_common_options :: "addr \<Rightarrow> world \<Rightarrow> world" where
  "apply_common_options this w =
     (let h = m_h (objs w this);
          opt = m_opt (objs w this);
          w = curl_easy_reset h w;
          w = curl_easy_setopt h CURLOPT_WRITEFUNCTION (Fun Write_body_cb) w;
          w = curl_easy_setopt h CURLOPT_WRITEDATA (Ptr this) w;
          w = curl_easy_setopt h CURLOPT_HEADERFUNCTION (Fun Write_header_cb) w;
          w = curl_easy_setopt h CURLOPT_HEADERDATA (Ptr this) w;
          w = curl_easy_setopt h CURLOPT_TIMEOUT_MS (Long (timeout_ms opt)) w;
          w = curl_easy_setopt h CURLOPT_FOLLOWLOCATION
                (Long (if follow_redirects opt then 1 else 0)) w;
          w = (case user_agent opt of
                 None \<Rightarrow> w
               | Some ua \<Rightarrow>
                   if ua \<noteq> [] then curl_easy_setopt h CURLOPT_USERAGENT (Str (c_str ua)) w
                   else w);
          w = curl_easy_setopt h CURLOPT_SSL_VERIFYPEER
                (Long (if verify_peer opt then 1 else 0)) w;
          w = curl_easy_setopt h CURLOPT_SSL_VERIFYHOST
                (Long (if verify_host opt then 2 else 0)) w
      in w)"

text \<open>The call-once body throws before the flag is set, so a failed initialisation is
  tried again by the next constructor.\<close>

definition global_init_once :: "engine \<Rightarrow> world \<Rightarrow> HttpError option \<times> world" where
  "global_init_once env w =
     (if g_curl_once w then (None, w)
      else if global_init_rc env \<noteq> 0 then (Some (HttpError ''curl_global_init failed''), w)
      else (None, w\<lparr>g_curl_once := True\<rparr>))"

text \<open>\<^verbatim>\<open>HttpClient::HttpClient(Options opt)\<close> at address \<open>this\<close>: \<open>Some e\<close> is the exception
  thrown, after which no object exists at \<open>this\<close>.\<close>

definition HttpClient_ctor :: "engine \<Rightarrow> addr \<Rightarrow> Options \<Rightarrow> world \<Rightarrow> HttpError option \<times> world" where
  "HttpClient_ctor env this opt w =
     (let w = w\<lparr>objs := (objs w)
                 (this := \<lparr>m_h = None, m_opt = opt, m_body_acc = [], m_hdr_acc = []\<rparr>)\<rparr>;
          g = global_init_once env w
      in case fst g of
           Some e \<Rightarrow> (Some e, snd g)
         | None \<Rightarrow>
             (let i = curl_easy_init env (snd g);
                  w = snd i;
                  w = w\<lparr>objs := (objs w)(this := (objs w this)\<lparr>m_h := fst i\<rparr>)\<rparr>
              in if fst i = None then (Some (HttpError ''curl_easy_init failed''), w)
                 else (None, (apply_common_options this w)
                               \<lparr>constructed := insert this (constructed w)\<rparr>)))"

text \<open>\<^verbatim>\<open>HttpClient::HttpClient()\<close> delegates with \<^verbatim>\<open>Options{}\<close>.\<close>

definition HttpClient_default_ctor :: "engine \<Rightarrow> addr \<Rightarrow> world \<Rightarrow> HttpError option \<times> world" where
  "HttpClient_default_ctor env this w = HttpClient_ctor env this Options_default w"

definition HttpClient_dtor :: "addr \<Rightarrow> world \<Rightarrow> world" where
  "HttpClient_dtor this w =
     (let w = (case m_h (objs w this) of None \<Rightarrow> w | Some p \<Rightarrow> curl_easy_cleanup p w)
      in w\<lparr>constructed := constructed w - {this}\<rparr>)"

text \<open>The move constructor builds the object at \<open>this\<close> from the one at \<open>other\<close>; the
  accumulators of the new object are default-initialised.\<close>

definition HttpClient_move_ctor :: "addr \<Rightarrow> addr \<Rightarrow> world \<Rightarrow> world" where
  "HttpClient_move_ctor this other w =
     (let w = w\<lparr>objs := (objs w)
                 (this := \<lparr>m_h = m_h (objs w other), m_opt = m_opt (objs w other),
                           m_body_acc = [], m_hdr_acc = []\<rparr>)\<rparr>;
          w = w\<lparr>objs := (objs w)(other := (objs w other)\<lparr>m_h := None\<rparr>)\<rparr>
      in w\<lparr>constructed := insert this (constructed w)\<rparr>)"

definition HttpClient_move_assign :: "addr \<Rightarrow> addr \<Rightarrow> world \<Rightarrow> world" where
  "HttpClient_move_assign this other w =
     (if this \<noteq> other then
        (let w = (case m_h (objs w this) of None \<Rightarrow> w | Some p \<Rightarrow> curl_easy_cleanup p w);
             w = w\<lparr>objs := (objs w)(this := (objs w this)\<lparr>m_h := m_h (objs w other)\<rparr>)\<rparr>;
             w = w\<lparr>objs := (objs w)(this := (objs w this)\<lparr>m_opt := m_opt (objs w other)\<rparr>)\<rparr>;
             w = w\<lparr>objs := (objs w)(other := (objs w other)\<lparr>m_h := None\<rparr>)\<rparr>
         in w)
      else w)"

definition set_options :: "addr \<Rightarrow> Options \<Rightarrow> world \<Rightarrow> world" where
  "set_options this opt w =
     (let w = w\<lparr>objs := (objs w)(this := (objs w this)\<lparr>m_opt := opt\<rparr>)\<rparr>
      in apply_common_options this w)"

text \<open>
  \<open>Inl e\<close> is the exception thrown, \<open>Inr r\<close> the response returned.  A string or vector that
  has been moved from is empty.
\<close>

definition perform_with_headers_and_body ::
    "engine \<Rightarrow> addr \<Rightarrow> world \<Rightarrow> (HttpError + Response) \<times> world" where
  "perform_with_headers_and_body env this w =
     (let w = w\<lparr>objs := (objs w)(this := (objs w this)\<lparr>m_body_acc := []\<rparr>)\<rparr>;
          w = w\<lparr>objs := (objs w)(this := (objs w this)\<lparr>m_hdr_acc := []\<rparr>)\<rparr>;
          p = curl_easy_perform env (m_h (objs w this)) w;
          res = fst p;
          w = snd p
      in if res \<noteq> CURLE_OK then
           (Inl (HttpError (''curl_easy_perform failed: '' @ strerror env res)), w)
         else
           (let code = curl_easy_getinfo_response_code (m_h (objs w this)) w 0;
                r = \<lparr>status = code, body = m_body_acc (objs w this),
                     headers = m_hdr_acc (objs w this)\<rparr>;
                w = w\<lparr>objs := (objs w)
                       (this := (objs w this)\<lparr>m_body_acc := [], m_hdr_acc := []\<rparr>)\<rparr>
            in (Inr r, w)))"

text \<open>
  \<^verbatim>\<open>get\<close> and \<^verbatim>\<open>post\<close> are each written in two parts: the statements that configure the
  handle, and the final \<^verbatim>\<open>return perform_with_headers_and_body();\<close>.
\<close>

definition get_setup :: "addr \<Rightarrow> string \<Rightarrow> header_list \<Rightarrow> world \<Rightarrow> world" where
  "get_setup this url hdrs w =
     (let w = apply_common_options this w;
          h = m_h (objs w this);
          w = curl_easy_setopt h CURLOPT_HTTPGET (Long 1) w;
          w = curl_easy_setopt h CURLOPT_URL (Str (c_str url)) w;
          sl = foldl (\<lambda>sl kv. Slist_add sl (fst kv @ '': '' @ snd kv)) None hdrs;
          w = (case sl of None \<Rightarrow> w | Some l \<Rightarrow> curl_easy_setopt h CURLOPT_HTTPHEADER (Slist l) w)
      in w)"

definition get :: "engine \<Rightarrow> addr \<Rightarrow> string \<Rightarrow> header_list \<Rightarrow> world
    \<Rightarrow> (HttpError + Response) \<times> world" where
  "get env this url hdrs w =
     perform_with_headers_and_body env this (get_setup this url hdrs w)"

text \<open>\<^verbatim>\<open>static_cast<long>(data.size())\<close> keeps the low 64 bits of the size.\<close>

definition post_setup :: "addr \<Rightarrow> string \<Rightarrow> string \<Rightarrow> header_list \<Rightarrow> world \<Rightarrow> world" where
  "post_setup this url data hdrs w =
     (let w = apply_common_options this w;
          h = m_h (objs w this);
          w = curl_easy_setopt h CURLOPT_POST (Long 1) w;
          w = curl_easy_setopt h CURLOPT_URL (Str (c_str url)) w;
          w = curl_easy_setopt h CURLOPT_POSTFIELDS (Data data) w;
          w = curl_easy_setopt h CURLOPT_POSTFIELDSIZE (Long (word_of_nat (length data))) w;
          sl = foldl (\<lambda>sl kv. Slist_add sl (fst kv @ '': '' @ snd kv)) None hdrs;
          w = (case sl of None \<Rightarrow> w | Some l \<Rightarrow> curl_easy_setopt h CURLOPT_HTTPHEADER (Slist l) w)
      in w)"

definition post :: "engine \<Rightarrow> addr \<Rightarrow> string \<Rightarrow> string \<Rightarrow> header_list \<Rightarrow> world
    \<Rightarrow> (HttpError + Response) \<times> world" where
  "post env this url data hdrs w =
     perform_with_headers_and_body env this (post_setup this url data hdrs w)"

text \<open>The options currently set on a handle (none on a pointer that is not a live handle).\<close>

definition handle_options :: "world \<Rightarrow> CURL \<Rightarrow> setopts" where
  "handle_options w p = (case handles w p of None \<Rightarrow> Map.empty | Some e \<Rightarrow> options e)"

section \<open>The specification's vocabulary\<close>

text \<open>
  The definitions of this section follow the words of the specification; the theorems
  compare them with the functions above.
\<close>

text \<open>The header lines and the body chunks among the callback invocations of a transfer,
  in the order of invocation.\<close>

fun header_lines :: "event list \<Rightarrow> string list" where
  "header_lines [] = []"
| "header_lines (Header_line l # evs) = l # header_lines evs"
| "header_lines (Body_chunk c # evs) = header_lines evs"

fun body_chunks :: "event list \<Rightarrow> string list" where
  "body_chunks [] = []"
| "body_chunks (Header_line l # evs) = body_chunks evs"
| "body_chunks (Body_chunk c # evs) = c # body_chunks evs"

text \<open>A status-line: a line beginning with the protocol/version token.\<close>

definition is_status_line :: "string \<Rightarrow> bool" where
  "is_status_line l = (take 5 l = ''HTTP/'')"

text \<open>The lines received after the last status-line (all of them when there is none).\<close>

definition after_last_status :: "string list \<Rightarrow> string list" where
  "after_last_status ls = rev (takeWhile (\<lambda>l. \<not> is_status_line l) (rev ls))"

text \<open>
  A blank line, the section terminator: a line with nothing before its line end, or
  nothing at all.  A line end is CR LF, or LF alone where the server sent it so: the
  engine hands each line over as it was received.
\<close>

definition blank_line :: "string \<Rightarrow> bool" where
  "blank_line l = (l = [] \<or> l = CRLF \<or> l = [LF])"

text \<open>A line without its line end.\<close>

definition without_line_end :: "string \<Rightarrow> string" where
  "without_line_end l =
     (if 2 \<le> length l \<and> drop (length l - 2) l = CRLF then take (length l - 2) l
      else if l \<noteq> [] \<and> last l = LF then butlast l
      else l)"

text \<open>Whether CR LF occurs somewhere in a string.\<close>

fun contains_crlf :: "string \<Rightarrow> bool" where
  "contains_crlf [] = False"
| "contains_crlf (x # xs) = (take 2 (x # xs) = CRLF \<or> contains_crlf xs)"

text \<open>The colon-split/trim rule: the name is everything before the first colon, the
  value everything after it with leading spaces and tabs trimmed; a line with no colon
  is the pair of the whole line and the empty string.\<close>

definition colon_split :: "string \<Rightarrow> string \<times> string" where
  "colon_split l =
     (if CHR '':'' \<in> set l then
        (takeWhile (\<lambda>c. c \<noteq> CHR '':'') l,
         dropWhile (\<lambda>c. c = CHR '' '' \<or> c = TAB) (tl (dropWhile (\<lambda>c. c \<noteq> CHR '':'') l)))
      else (l, []))"

text \<open>The baseline option set: both write callbacks bound to this session, the total
  timeout in milliseconds, redirect-following on or off, the user-agent only when it is
  present and non-empty, peer verification on or off, and host verification off (0) or
  strict hostname match (2).  Every other option is unset.\<close>

definition baseline_options :: "addr \<Rightarrow> Options \<Rightarrow> setopts" where
  "baseline_options this opt = (\<lambda>x. case x of
       CURLOPT_WRITEFUNCTION \<Rightarrow> Some (Fun Write_body_cb)
     | CURLOPT_WRITEDATA \<Rightarrow> Some (Ptr this)
     | CURLOPT_HEADERFUNCTION \<Rightarrow> Some (Fun Write_header_cb)
     | CURLOPT_HEADERDATA \<Rightarrow> Some (Ptr this)
     | CURLOPT_TIMEOUT_MS \<Rightarrow> Some (Long (timeout_ms opt))
     | CURLOPT_FOLLOWLOCATION \<Rightarrow> Some (Long (if follow_redirects opt then 1 else 0))
     | CURLOPT_USERAGENT \<Rightarrow>
         (case user_agent opt of
            None \<Rightarrow> None
          | Some ua \<Rightarrow> if ua \<noteq> [] then Some (Str (c_str ua)) else None)
     | CURLOPT_SSL_VERIFYPEER \<Rightarrow> Some (Long (if verify_peer opt then 1 else 0))
     | CURLOPT_SSL_VERIFYHOST \<Rightarrow> Some (Long (if verify_host opt then 2 else 0))
     | _ \<Rightarrow> None)"

text \<open>The caller's header list attached to a request: one line \<open>name: value\<close> per pair,
  in order; nothing is attached for an empty list.\<close>

definition with_headers :: "header_list \<Rightarrow> setopts \<Rightarrow> setopts" where
  "with_headers hdrs T =
     (if hdrs = [] then T
      else T(CURLOPT_HTTPHEADER \<mapsto> Slist (map (\<lambda>kv. c_str (fst kv @ '': '' @ snd kv)) hdrs)))"

section \<open>The header callback in closed form\<close>

text \<open>
  The two tests \<^verbatim>\<open>write_header_cb\<close> makes on a line that is not a status-line, written
  as functions of the line.  They are the tests of the source, not the specification's
  notions of a blank line and of a line end: the callback skips the empty line and the
  line that is exactly CR LF (\<^verbatim>\<open>!line.empty() && line != "\r\n"\<close>), and it cuts every
  other line at its first CR LF (\<^verbatim>\<open>line.substr(0, line.find("\r\n"))\<close>).
\<close>

definition skipped_line :: "string \<Rightarrow> bool" where
  "skipped_line l = (l = [] \<or> l = CRLF)"

fun before_crlf :: "string \<Rightarrow> string" where
  "before_crlf [] = []"
| "before_crlf (x # xs) = (if take 2 (x # xs) = CRLF then [] else x # before_crlf xs)"

text \<open>The pairs the callback makes of a sequence of lines none of which is a
  status-line: every line it does not skip, cut at its first CR LF and split by the
  colon rule.\<close>

definition parsed_pairs :: "string list \<Rightarrow> header_list" where
  "parsed_pairs ls =
     map (\<lambda>l. colon_split (before_crlf l)) (filter (\<lambda>l. \<not> skipped_line l) ls)"

text \<open>What one callback invocation does to the object it is bound to.\<close>

fun feed :: "HttpClient \<Rightarrow> event \<Rightarrow> HttpClient" where
  "feed self (Header_line l) = snd (write_header_cb l self)"
| "feed self (Body_chunk c) = snd (write_body_cb c self)"

section \<open>A concrete session\<close>

text \<open>
  A process with one session at address 3 that owns handle 7 and still holds data in both
  accumulators, and three engines: one that answers with a redirect followed by a final
  response, one whose transfer times out after part of the body, and one that cannot
  allocate a handle.
\<close>

definition example_easy :: easy where
  "example_easy =
     \<lparr>options = [CURLOPT_POSTFIELDS \<mapsto> Data ''stale'', CURLOPT_WRITEDATA \<mapsto> Ptr 9],
      response_code = 404\<rparr>"

definition example_client :: HttpClient where
  "example_client =
     \<lparr>m_h = Some 7, m_opt = Options_default, m_body_acc = ''residue'',
      m_hdr_acc = [(''X-Old'', ''1'')]\<rparr>"

definition no_client :: HttpClient where
  "no_client = \<lparr>m_h = None, m_opt = Options_default, m_body_acc = [], m_hdr_acc = []\<rparr>"

definition example_world :: world where
  "example_world =
     \<lparr>g_curl_once = True, handles = [7 \<mapsto> example_easy],
      objs = (\<lambda>a. no_client)(3 := example_client), constructed = {3}\<rparr>"

text \<open>The same process with a second session at address 4 that owns handle 9.\<close>

definition two_sessions :: world where
  "two_sessions =
     example_world\<lparr>handles := [7 \<mapsto> example_easy, 9 \<mapsto> fresh_easy],
       objs := (objs example_world)(4 := no_client\<lparr>m_h := Some 9\<rparr>),
       constructed := {3, 4}\<rparr>"

definition example_transfer :: transfer where
  "example_transfer =
     \<lparr>callbacks =
        [Header_line (''HTTP/1.1 301 Moved'' @ CRLF),
         Header_line (''Location: /new'' @ CRLF),
         Header_line CRLF,
         Header_line (''HTTP/1.1 200 OK'' @ CRLF),
         Header_line (''Content-Type: text/html'' @ CRLF),
         Header_line (''X-Flag'' @ CRLF),
         Header_line CRLF,
         Body_chunk ''hel'', Body_chunk ''lo''],
      code = 0, http_code = 200\<rparr>"

definition example_engine :: engine where
  "example_engine =
     \<lparr>global_init_rc = 0, easy_init_ptr = Some 8, wire = (\<lambda>T. example_transfer),
      strerror = (\<lambda>c. ''No error'')\<rparr>"

definition timeout_engine :: engine where
  "timeout_engine =
     \<lparr>global_init_rc = 0, easy_init_ptr = Some 8,
      wire = (\<lambda>T. \<lparr>callbacks = [Header_line (''HTTP/1.1 200 OK'' @ CRLF), Body_chunk ''par''],
                    code = 28, http_code = 200\<rparr>),
      strerror = (\<lambda>c. ''Timeout was reached'')\<rparr>"

definition no_handle_engine :: engine where
  "no_handle_engine =
     \<lparr>global_init_rc = 0, easy_init_ptr = None, wire = (\<lambda>T. example_transfer),
      strerror = (\<lambda>c. ''No error'')\<rparr>"

definition example_response :: Response where
  "example_response =
     \<lparr>status = 200, body = ''hello'',
      headers = [(''Content-Type'', ''text/html''), (''X-Flag'', [])]\<rparr>"

section \<open>Properties of the string primitives\<close>

declare skip_blanks.simps [simp del]

lemma find_char_None: "find_char ch l = None \<longleftrightarrow> ch \<notin> set l"
  by (induction l) auto

lemma find_char_Some:
  "find_char ch l = Some n \<Longrightarrow> n = length (takeWhile (\<lambda>c. c \<noteq> ch) l) \<and> n < length l"
  by (induction l arbitrary: n) (auto split: if_splits)

lemma drop_Suc_takeWhile_length:
  "ch \<in> set l \<Longrightarrow> drop (Suc (length (takeWhile (\<lambda>c. c \<noteq> ch) l))) l = tl (dropWhile (\<lambda>c. c \<noteq> ch) l)"
  by (induction l) auto

lemma drop_skip_blanks:
  "start \<le> length line \<Longrightarrow>
   drop (skip_blanks line start) line = dropWhile (\<lambda>c. c = CHR '' '' \<or> c = TAB) (drop start line)"
proof (induction line start rule: skip_blanks.induct)
  case (1 line start)
  show ?case
  proof (cases "start < length line")
    case True
    then have d: "drop start line = line ! start # drop (Suc start) line"
      by (simp add: Cons_nth_drop_Suc)
    show ?thesis
    proof (cases "line ! start = CHR '' '' \<or> line ! start = TAB")
      case blank: True
      with True 1 have "drop (skip_blanks line (Suc start)) line
          = dropWhile (\<lambda>c. c = CHR '' '' \<or> c = TAB) (drop (Suc start) line)"
        by simp
      with True blank d show ?thesis
        by (subst skip_blanks.simps) auto
    next
      case False
      with True d show ?thesis
        by (subst skip_blanks.simps) auto
    qed
  next
    case False
    with 1 show ?thesis
      by (subst skip_blanks.simps) simp
  qed
qed

lemma split_header_line_colon_split: "split_header_line l = colon_split l"
proof (cases "find_char CHR '':'' l")
  case None
  then have "CHR '':'' \<notin> set l"
    using find_char_None by blast
  with None show ?thesis
    by (simp add: split_header_line_def colon_split_def)
next
  case (Some pos)
  then have pos: "pos = length (takeWhile (\<lambda>c. c \<noteq> CHR '':'') l)" and lt: "pos < length l"
    using find_char_Some by blast+
  from Some have mem: "CHR '':'' \<in> set l"
    using find_char_None [of "CHR '':''" l] by simp
  have n: "take pos l = takeWhile (\<lambda>c. c \<noteq> CHR '':'') l"
    unfolding pos by (induction l) auto
  have v: "drop (skip_blanks l (pos + 1)) l
      = dropWhile (\<lambda>c. c = CHR '' '' \<or> c = TAB) (tl (dropWhile (\<lambda>c. c \<noteq> CHR '':'') l))"
    using lt mem by (simp add: drop_skip_blanks drop_Suc_takeWhile_length pos)
  show ?thesis
    using Some mem n v by (simp add: split_header_line_def colon_split_def substr_def)
qed

lemma substr_find_crlf: "substr l 0 (find_str CRLF l) = before_crlf l"
  by (induction l) (auto simp: substr_def CRLF_def split: option.splits)

lemma rfind0_is0_status: "rfind0_is0 l ''HTTP/'' = is_status_line l"
  by (simp add: rfind0_is0_def is_status_line_def eval_nat_numeral)

lemma colon_split_parts:
  assumes "CHR '':'' \<notin> set name"
    and "set ws \<subseteq> {CHR '' '', TAB}"
    and "v = [] \<or> (hd v \<noteq> CHR '' '' \<and> hd v \<noteq> TAB)"
  shows "colon_split (name @ '':'' @ ws @ v) = (name, v)"
proof -
  have n: "takeWhile (\<lambda>c. c \<noteq> CHR '':'') (name @ '':'' @ ws @ v) = name"
    using assms(1) by (induction name) auto
  have d: "dropWhile (\<lambda>c. c \<noteq> CHR '':'') (name @ '':'' @ ws @ v) = '':'' @ ws @ v"
    using assms(1) by (induction name) auto
  have "dropWhile (\<lambda>c. c = CHR '' '' \<or> c = TAB) v = v"
    using assms(3) by (cases v) auto
  then have b: "dropWhile (\<lambda>c. c = CHR '' '' \<or> c = TAB) (ws @ v) = v"
    using assms(2) by (induction ws) auto
  show ?thesis
    using n d b by (simp add: colon_split_def)
qed

lemma sint_size_cast:
  assumes "n < 2 ^ 63"
  shows "sint (word_of_nat n :: long) = int n"
proof -
  have "int n < 2 ^ 63"
    using assms by (metis of_nat_less_iff of_nat_numeral of_nat_power)
  then have "signed_take_bit 63 (int n) = int n"
    by (simp add: signed_take_bit_int_eq_self)
  then show ?thesis
    by (simp add: signed_of_nat)
qed

section \<open>Properties of the callbacks\<close>

lemma fst_write_body_cb: "fst (write_body_cb chunk self) = length chunk"
  by (simp add: write_body_cb_def)

lemma fst_write_header_cb: "fst (write_header_cb line self) = length line"
  by (simp add: write_header_cb_def Let_def)

lemma fst_call_cb: "fst (call_cb cb bytes self) = length bytes"
  by (cases cb) (simp_all add: fst_write_body_cb fst_write_header_cb)

lemma snd_write_header_cb:
  "snd (write_header_cb line self) =
     (if is_status_line line then self\<lparr>m_hdr_acc := []\<rparr>
      else if skipped_line line then self
      else self\<lparr>m_hdr_acc := m_hdr_acc self @ [colon_split (before_crlf line)]\<rparr>)"
  by (simp add: write_header_cb_def Let_def rfind0_is0_status skipped_line_def
      split_header_line_colon_split substr_find_crlf)

lemma feed_others:
  "m_h (feed self ev) = m_h self" "m_opt (feed self ev) = m_opt self"
  by (cases ev; simp add: snd_write_header_cb write_body_cb_def)+

lemma foldl_feed_others:
  "m_h (foldl feed self evs) = m_h self" "m_opt (foldl feed self evs) = m_opt self"
  by (induction evs arbitrary: self) (simp_all add: feed_others)

lemma feed_then_clear:
  "(foldl feed self evs)\<lparr>m_body_acc := [], m_hdr_acc := []\<rparr> = self\<lparr>m_body_acc := [], m_hdr_acc := []\<rparr>"
proof (induction evs arbitrary: self)
  case Nil
  show ?case by simp
next
  case (Cons ev evs)
  have "(feed self ev)\<lparr>m_body_acc := [], m_hdr_acc := []\<rparr> = self\<lparr>m_body_acc := [], m_hdr_acc := []\<rparr>"
    by (cases ev) (simp_all add: snd_write_header_cb write_body_cb_def)
  with Cons.IH [of "feed self ev"] show ?case by simp
qed

lemma body_acc_feed:
  "m_body_acc (foldl feed self evs) = m_body_acc self @ concat (body_chunks evs)"
proof (induction evs arbitrary: self)
  case Nil
  show ?case by simp
next
  case (Cons ev evs)
  then show ?case
    by (cases ev) (simp_all add: snd_write_header_cb write_body_cb_def)
qed

lemma header_lines_append: "header_lines (xs @ ys) = header_lines xs @ header_lines ys"
  by (induction xs rule: header_lines.induct) simp_all

lemma hdr_acc_feed:
  "m_hdr_acc (foldl feed self evs) =
     (if \<exists>l \<in> set (header_lines evs). is_status_line l then []
      else m_hdr_acc self) @ parsed_pairs (after_last_status (header_lines evs))"
proof (induction evs rule: rev_induct)
  case Nil
  show ?case by (simp add: parsed_pairs_def after_last_status_def)
next
  case (snoc ev evs)
  show ?case
  proof (cases ev)
    case (Body_chunk c)
    with snoc show ?thesis
      by (simp add: header_lines_append write_body_cb_def)
  next
    case (Header_line l)
    with snoc show ?thesis
      by (simp add: header_lines_append snd_write_header_cb parsed_pairs_def
          after_last_status_def)
  qed
qed

text \<open>A table in which both callbacks of the wrapper are registered for the object at
  \<open>this\<close>.\<close>

lemma deliver_registered:
  "deliver (Some (Fun cb)) (Some (Ptr a)) bytes w =
     (True, w\<lparr>objs := (objs w)(a := snd (call_cb cb bytes (objs w a)))\<rparr>)"
  by (simp add: deliver_def Let_def fst_call_cb)

lemma run_callbacks_registered:
  assumes "T CURLOPT_WRITEFUNCTION = Some (Fun Write_body_cb)"
    and "T CURLOPT_WRITEDATA = Some (Ptr this)"
    and "T CURLOPT_HEADERFUNCTION = Some (Fun Write_header_cb)"
    and "T CURLOPT_HEADERDATA = Some (Ptr this)"
  shows "run_callbacks T evs w = (True, w\<lparr>objs := (objs w)(this := foldl feed (objs w this) evs)\<rparr>)"
proof (induction evs arbitrary: w)
  case Nil
  show ?case by simp
next
  case (Cons ev evs)
  show ?case
    by (cases ev) (simp_all add: assms deliver_registered Cons.IH Let_def cong: if_cong)
qed

lemma before_crlf_terminated:
  "\<not> contains_crlf content \<Longrightarrow> before_crlf (content @ CRLF) = content"
proof (induction content)
  case Nil
  show ?case by (simp add: CRLF_def)
next
  case (Cons x xs)
  then have "take 2 (x # xs) \<noteq> CRLF" and "before_crlf (xs @ CRLF) = xs"
    by simp_all
  moreover have "take 2 (x # xs @ CRLF) \<noteq> CRLF"
  proof (cases xs)
    case Nil
    then show ?thesis by (simp add: CRLF_def CR_def LF_def)
  next
    case (Cons y ys)
    with \<open>take 2 (x # xs) \<noteq> CRLF\<close> show ?thesis by simp
  qed
  ultimately show ?case by simp
qed

lemma without_line_end_terminated: "without_line_end (content @ CRLF) = content"
  by (simp add: without_line_end_def CRLF_def)

lemma blank_line_terminated: "blank_line (content @ CRLF) \<longleftrightarrow> content = []"
  by (auto simp: blank_line_def CRLF_def)

lemma skipped_line_terminated: "skipped_line (content @ CRLF) \<longleftrightarrow> content = []"
  by (auto simp: skipped_line_def CRLF_def)

lemma write_header_cb_terminated:
  assumes "\<not> is_status_line line"
    and "line = [] \<or> (line = content @ CRLF \<and> \<not> contains_crlf content)"
  shows "snd (write_header_cb line self) =
     (if blank_line line then self
      else self\<lparr>m_hdr_acc := m_hdr_acc self @ [colon_split (without_line_end line)]\<rparr>)"
proof (cases "line = []")
  case True
  with assms(1) show ?thesis
    by (simp add: snd_write_header_cb skipped_line_def blank_line_def)
next
  case False
  with assms(2) have l: "line = content @ CRLF" and c: "\<not> contains_crlf content"
    by blast+
  show ?thesis
    using assms(1) unfolding l
    by (simp add: snd_write_header_cb skipped_line_terminated blank_line_terminated
        before_crlf_terminated [OF c] without_line_end_terminated del: append_assoc)
qed

section \<open>Configuring the handle\<close>

lemma curl_easy_setopt_live:
  "handles w p = Some e \<Longrightarrow>
   curl_easy_setopt (Some p) opt v w =
     w\<lparr>handles := (handles w)(p \<mapsto> e\<lparr>options := (options e)(opt \<mapsto> v)\<rparr>)\<rparr>"
  by (simp add: curl_easy_setopt_def)

lemma curl_easy_reset_live:
  "handles w p = Some e \<Longrightarrow>
   curl_easy_reset (Some p) w = w\<lparr>handles := (handles w)(p \<mapsto> fresh_easy)\<rparr>"
  by (simp add: curl_easy_reset_def)

lemma foldl_Slist_add:
  "foldl (\<lambda>sl kv. Slist_add sl (f kv)) acc hdrs =
     (case acc of
        None \<Rightarrow> if hdrs = [] then None else Some (map (\<lambda>kv. c_str (f kv)) hdrs)
      | Some l \<Rightarrow> Some (l @ map (\<lambda>kv. c_str (f kv)) hdrs))"
  by (induction hdrs arbitrary: acc) (auto simp: Slist_add_def split: option.splits)

lemma apply_common_options_live:
  assumes h: "m_h (objs w this) = Some p" and e: "handles w p = Some e"
  shows "apply_common_options this w =
     w\<lparr>handles := (handles w)(p \<mapsto>
        \<lparr>options = baseline_options this (m_opt (objs w this)), response_code = 0\<rparr>)\<rparr>"
proof -
  have tab: "\<And>T T'. (\<And>x. T x = T' x) \<Longrightarrow>
      w\<lparr>handles := (handles w)(p \<mapsto> \<lparr>options = T, response_code = 0\<rparr>)\<rparr>
    = w\<lparr>handles := (handles w)(p \<mapsto> \<lparr>options = T', response_code = 0\<rparr>)\<rparr>"
    by (simp add: ext)
  consider (none) "user_agent (m_opt (objs w this)) = None"
    | (empty) "user_agent (m_opt (objs w this)) = Some []"
    | (given) ua where "user_agent (m_opt (objs w this)) = Some ua" "ua \<noteq> []"
    by (cases "user_agent (m_opt (objs w this))") auto
  then show ?thesis
  proof cases
    case none
    show ?thesis
      unfolding apply_common_options_def Let_def
      apply (simp add: h e none curl_easy_setopt_live curl_easy_reset_live fresh_easy_def
          split del: if_split cong: if_cong)
      apply (rule tab)
      subgoal for x
        by (cases x) (simp_all add: baseline_options_def none split del: if_split cong: if_cong)
      done
  next
    case empty
    show ?thesis
      unfolding apply_common_options_def Let_def
      apply (simp add: h e empty curl_easy_setopt_live curl_easy_reset_live fresh_easy_def
          split del: if_split cong: if_cong)
      apply (rule tab)
      subgoal for x
        by (cases x) (simp_all add: baseline_options_def empty split del: if_split cong: if_cong)
      done
  next
    case given
    show ?thesis
      unfolding apply_common_options_def Let_def
      apply (simp add: h e given curl_easy_setopt_live curl_easy_reset_live fresh_easy_def
          split del: if_split cong: if_cong)
      apply (rule tab)
      subgoal for x
        by (cases x) (simp_all add: baseline_options_def given split del: if_split cong: if_cong)
      done
  qed
qed

lemma get_setup_live:
  assumes h: "m_h (objs w this) = Some p" and e: "handles w p = Some e"
  shows "get_setup this url hdrs w =
     w\<lparr>handles := (handles w)(p \<mapsto>
        \<lparr>options = with_headers hdrs
           ((baseline_options this (m_opt (objs w this)))
              (CURLOPT_HTTPGET \<mapsto> Long 1, CURLOPT_URL \<mapsto> Str (c_str url))),
         response_code = 0\<rparr>)\<rparr>"
proof (cases "hdrs = []")
  case True
  then show ?thesis
    unfolding get_setup_def Let_def
    by (simp add: apply_common_options_live [OF h e] h curl_easy_setopt_live with_headers_def)
next
  case False
  then show ?thesis
    unfolding get_setup_def Let_def
    by (simp add: apply_common_options_live [OF h e] h curl_easy_setopt_live foldl_Slist_add
        with_headers_def)
qed

lemma post_setup_live:
  assumes h: "m_h (objs w this) = Some p" and e: "handles w p = Some e"
  shows "post_setup this url data hdrs w =
     w\<lparr>handles := (handles w)(p \<mapsto>
        \<lparr>options = with_headers hdrs
           ((baseline_options this (m_opt (objs w this)))
              (CURLOPT_POST \<mapsto> Long 1, CURLOPT_URL \<mapsto> Str (c_str url),
               CURLOPT_POSTFIELDS \<mapsto> Data data,
               CURLOPT_POSTFIELDSIZE \<mapsto> Long (word_of_nat (length data)))),
         response_code = 0\<rparr>)\<rparr>"
proof (cases "hdrs = []")
  case True
  then show ?thesis
    unfolding post_setup_def Let_def
    by (simp add: apply_common_options_live [OF h e] h curl_easy_setopt_live with_headers_def)
next
  case False
  then show ?thesis
    unfolding post_setup_def Let_def
    by (simp add: apply_common_options_live [OF h e] h curl_easy_setopt_live foldl_Slist_add
        with_headers_def)
qed

lemma baseline_registered:
  "baseline_options this opt CURLOPT_WRITEFUNCTION = Some (Fun Write_body_cb)"
  "baseline_options this opt CURLOPT_WRITEDATA = Some (Ptr this)"
  "baseline_options this opt CURLOPT_HEADERFUNCTION = Some (Fun Write_header_cb)"
  "baseline_options this opt CURLOPT_HEADERDATA = Some (Ptr this)"
  by (simp_all add: baseline_options_def)

lemma with_headers_other:
  "x \<noteq> CURLOPT_HTTPHEADER \<Longrightarrow> with_headers hdrs T x = T x"
  by (simp add: with_headers_def)

lemma registered_get:
  fixes this :: addr and opt :: Options and url :: string and hdrs :: header_list
  defines "T \<equiv> with_headers hdrs ((baseline_options this opt)
              (CURLOPT_HTTPGET \<mapsto> Long 1, CURLOPT_URL \<mapsto> Str (c_str url)))"
  shows "T CURLOPT_WRITEFUNCTION = Some (Fun Write_body_cb)"
      "T CURLOPT_WRITEDATA = Some (Ptr this)"
      "T CURLOPT_HEADERFUNCTION = Some (Fun Write_header_cb)"
      "T CURLOPT_HEADERDATA = Some (Ptr this)"
  by (simp_all add: T_def with_headers_other baseline_registered)

lemma registered_post:
  fixes this :: addr and opt :: Options and url :: string and hdrs :: header_list
    and data :: string
  defines "T \<equiv> with_headers hdrs ((baseline_options this opt)
              (CURLOPT_POST \<mapsto> Long 1, CURLOPT_URL \<mapsto> Str (c_str url),
               CURLOPT_POSTFIELDS \<mapsto> Data data,
               CURLOPT_POSTFIELDSIZE \<mapsto> Long (word_of_nat (length data))))"
  shows "T CURLOPT_WRITEFUNCTION = Some (Fun Write_body_cb)"
      "T CURLOPT_WRITEDATA = Some (Ptr this)"
      "T CURLOPT_HEADERFUNCTION = Some (Fun Write_header_cb)"
      "T CURLOPT_HEADERDATA = Some (Ptr this)"
  by (simp_all add: T_def with_headers_other baseline_registered)

lemma handle_options_get_setup:
  assumes "m_h (objs w this) = Some p" and "handles w p = Some e"
  shows "handle_options (get_setup this url hdrs w) p =
     with_headers hdrs ((baseline_options this (m_opt (objs w this)))
        (CURLOPT_HTTPGET \<mapsto> Long 1, CURLOPT_URL \<mapsto> Str (c_str url)))"
  by (simp add: get_setup_live [OF assms] handle_options_def)

lemma handle_options_post_setup:
  assumes "m_h (objs w this) = Some p" and "handles w p = Some e"
  shows "handle_options (post_setup this url data hdrs w) p =
     with_headers hdrs ((baseline_options this (m_opt (objs w this)))
        (CURLOPT_POST \<mapsto> Long 1, CURLOPT_URL \<mapsto> Str (c_str url),
         CURLOPT_POSTFIELDS \<mapsto> Data data,
         CURLOPT_POSTFIELDSIZE \<mapsto> Long (word_of_nat (length data))))"
  by (simp add: post_setup_live [OF assms] handle_options_def)

lemma default_user_agent_baseline:
  "baseline_options this Options_default CURLOPT_USERAGENT = Some (Str ''HttpClient/1.0'')"
  by (simp add: baseline_options_def Options_default_def c_str_def NUL_def)

lemma setup_user_agent:
  assumes "m_h (objs w this) = Some p" and "handles w p = Some e"
  shows "handle_options (get_setup this url hdrs w) p CURLOPT_USERAGENT
           = baseline_options this (m_opt (objs w this)) CURLOPT_USERAGENT"
    and "handle_options (post_setup this url data hdrs w) p CURLOPT_USERAGENT
           = baseline_options this (m_opt (objs w this)) CURLOPT_USERAGENT"
  by (simp_all add: handle_options_get_setup [OF assms] handle_options_post_setup [OF assms]
      with_headers_other)

section \<open>Performing a request\<close>

lemma curl_easy_perform_registered:
  assumes h: "handles w p = Some e"
    and reg: "options e CURLOPT_WRITEFUNCTION = Some (Fun Write_body_cb)"
      "options e CURLOPT_WRITEDATA = Some (Ptr this)"
      "options e CURLOPT_HEADERFUNCTION = Some (Fun Write_header_cb)"
      "options e CURLOPT_HEADERDATA = Some (Ptr this)"
  shows "curl_easy_perform env (Some p) w =
     (code (wire env (options e)),
      w\<lparr>objs := (objs w)(this := foldl feed (objs w this) (callbacks (wire env (options e)))),
        handles := (handles w)(p \<mapsto> e\<lparr>response_code := http_code (wire env (options e))\<rparr>)\<rparr>)"
  by (simp add: curl_easy_perform_def h Let_def run_callbacks_registered [OF reg])

lemma perform_registered:
  assumes h: "m_h (objs w this) = Some p" and e: "handles w p = Some e"
    and reg: "options e CURLOPT_WRITEFUNCTION = Some (Fun Write_body_cb)"
      "options e CURLOPT_WRITEDATA = Some (Ptr this)"
      "options e CURLOPT_HEADERFUNCTION = Some (Fun Write_header_cb)"
      "options e CURLOPT_HEADERDATA = Some (Ptr this)"
  shows "perform_with_headers_and_body env this w =
     (let t = wire env (options e);
          self = foldl feed ((objs w this)\<lparr>m_body_acc := [], m_hdr_acc := []\<rparr>) (callbacks t);
          hs = (handles w)(p \<mapsto> e\<lparr>response_code := http_code t\<rparr>)
      in if code t \<noteq> CURLE_OK then
           (Inl (HttpError (''curl_easy_perform failed: '' @ strerror env (code t))),
            w\<lparr>objs := (objs w)(this := self), handles := hs\<rparr>)
         else
           (Inr \<lparr>status = http_code t, body = m_body_acc self, headers = m_hdr_acc self\<rparr>,
            w\<lparr>objs := (objs w)(this := self\<lparr>m_body_acc := [], m_hdr_acc := []\<rparr>),
              handles := hs\<rparr>))"
  unfolding perform_with_headers_and_body_def Let_def
  by (simp add: h e curl_easy_perform_registered [where this = this and e = e] reg
      foldl_feed_others curl_easy_getinfo_response_code_def)

lemma perform_on_setup:
  assumes h: "m_h (objs w this) = Some p"
    and reg: "T CURLOPT_WRITEFUNCTION = Some (Fun Write_body_cb)"
      "T CURLOPT_WRITEDATA = Some (Ptr this)"
      "T CURLOPT_HEADERFUNCTION = Some (Fun Write_header_cb)"
      "T CURLOPT_HEADERDATA = Some (Ptr this)"
  shows "perform_with_headers_and_body env this
           (w\<lparr>handles := (handles w)(p \<mapsto> \<lparr>options = T, response_code = rc\<rparr>)\<rparr>) =
     (let t = wire env T;
          hs = (handles w)(p \<mapsto> \<lparr>options = T, response_code = http_code t\<rparr>)
      in if code t \<noteq> CURLE_OK then
           (Inl (HttpError (''curl_easy_perform failed: '' @ strerror env (code t))),
            w\<lparr>objs := (objs w)(this := foldl feed
                   ((objs w this)\<lparr>m_body_acc := [], m_hdr_acc := []\<rparr>) (callbacks t)),
              handles := hs\<rparr>)
         else
           (Inr \<lparr>status = http_code t, body = concat (body_chunks (callbacks t)),
                 headers = parsed_pairs (after_last_status (header_lines (callbacks t)))\<rparr>,
            w\<lparr>objs := (objs w)(this := (objs w this)\<lparr>m_body_acc := [], m_hdr_acc := []\<rparr>),
              handles := hs\<rparr>))"
proof -
  let ?w1 = "w\<lparr>handles := (handles w)(p \<mapsto> \<lparr>options = T, response_code = rc\<rparr>)\<rparr>"
  have h1: "m_h (objs ?w1 this) = Some p" using h by simp
  have e1: "handles ?w1 p = Some \<lparr>options = T, response_code = rc\<rparr>" by simp
  show ?thesis
    by (subst perform_registered [OF h1 e1])
       (simp_all add: reg Let_def body_acc_feed hdr_acc_feed feed_then_clear)
qed

text \<open>The outcome of a request in terms of the transfer the engine produced for it.\<close>

lemma get_outcome:
  assumes h: "m_h (objs w this) = Some p" and e: "handles w p = Some e"
    and t: "t = wire env (handle_options (get_setup this url hdrs w) p)"
  shows "get env this url hdrs w =
     (if code t \<noteq> CURLE_OK then
        (Inl (HttpError (''curl_easy_perform failed: '' @ strerror env (code t))),
         w\<lparr>objs := (objs w)(this := foldl feed
                ((objs w this)\<lparr>m_body_acc := [], m_hdr_acc := []\<rparr>) (callbacks t)),
           handles := (handles w)(p \<mapsto>
              \<lparr>options = handle_options (get_setup this url hdrs w) p,
               response_code = http_code t\<rparr>)\<rparr>)
      else
        (Inr \<lparr>status = http_code t, body = concat (body_chunks (callbacks t)),
              headers = parsed_pairs (after_last_status (header_lines (callbacks t)))\<rparr>,
         w\<lparr>objs := (objs w)(this := (objs w this)\<lparr>m_body_acc := [], m_hdr_acc := []\<rparr>),
           handles := (handles w)(p \<mapsto>
              \<lparr>options = handle_options (get_setup this url hdrs w) p,
               response_code = http_code t\<rparr>)\<rparr>))"
  unfolding get_def t handle_options_get_setup [OF h e]
  by (simp only: get_setup_live [OF h e] perform_on_setup [OF h registered_get] Let_def)

lemma post_outcome:
  assumes h: "m_h (objs w this) = Some p" and e: "handles w p = Some e"
    and t: "t = wire env (handle_options (post_setup this url data hdrs w) p)"
  shows "post env this url data hdrs w =
     (if code t \<noteq> CURLE_OK then
        (Inl (HttpError (''curl_easy_perform failed: '' @ strerror env (code t))),
         w\<lparr>objs := (objs w)(this := foldl feed
                ((objs w this)\<lparr>m_body_acc := [], m_hdr_acc := []\<rparr>) (callbacks t)),
           handles := (handles w)(p \<mapsto>
              \<lparr>options = handle_options (post_setup this url data hdrs w) p,
               response_code = http_code t\<rparr>)\<rparr>)
      else
        (Inr \<lparr>status = http_code t, body = concat (body_chunks (callbacks t)),
              headers = parsed_pairs (after_last_status (header_lines (callbacks t)))\<rparr>,
         w\<lparr>objs := (objs w)(this := (objs w this)\<lparr>m_body_acc := [], m_hdr_acc := []\<rparr>),
           handles := (handles w)(p \<mapsto>
              \<lparr>options = handle_options (post_setup this url data hdrs w) p,
               response_code = http_code t\<rparr>)\<rparr>))"
  unfolding post_def t handle_options_post_setup [OF h e]
  by (simp only: post_setup_live [OF h e] perform_on_setup [OF h registered_post] Let_def)

lemma after_get:
  assumes h: "m_h (objs w this) = Some p" and e: "handles w p = Some e"
  shows "m_h (objs (snd (get env this url hdrs w)) this) = Some p"
    and "m_opt (objs (snd (get env this url hdrs w)) this) = m_opt (objs w this)"
    and "\<exists>e'. handles (snd (get env this url hdrs w)) p = Some e'"
    and "constructed (snd (get env this url hdrs w)) = constructed w"
  by (simp_all add: get_outcome [OF h e refl] h foldl_feed_others)

lemma after_post:
  assumes h: "m_h (objs w this) = Some p" and e: "handles w p = Some e"
  shows "m_h (objs (snd (post env this url data hdrs w)) this) = Some p"
    and "m_opt (objs (snd (post env this url data hdrs w)) this) = m_opt (objs w this)"
    and "\<exists>e'. handles (snd (post env this url data hdrs w)) p = Some e'"
    and "constructed (snd (post env this url data hdrs w)) = constructed w"
  by (simp_all add: post_outcome [OF h e refl] h foldl_feed_others)

lemma get_response:
  assumes h: "m_h (objs w this) = Some p" and e: "handles w p = Some e"
    and r: "fst (get env this url hdrs w) = Inr r"
  shows "body r = concat (body_chunks (callbacks
             (wire env (handle_options (get_setup this url hdrs w) p))))"
    and "headers r = parsed_pairs (after_last_status (header_lines (callbacks
             (wire env (handle_options (get_setup this url hdrs w) p)))))"
    and "m_body_acc (objs (snd (get env this url hdrs w)) this) = []"
    and "m_hdr_acc (objs (snd (get env this url hdrs w)) this) = []"
  using r by (auto simp: get_outcome [OF h e refl] split: if_splits)

lemma post_response:
  assumes h: "m_h (objs w this) = Some p" and e: "handles w p = Some e"
    and r: "fst (post env this url data hdrs w) = Inr r"
  shows "body r = concat (body_chunks (callbacks
             (wire env (handle_options (post_setup this url data hdrs w) p))))"
    and "headers r = parsed_pairs (after_last_status (header_lines (callbacks
             (wire env (handle_options (post_setup this url data hdrs w) p)))))"
    and "m_body_acc (objs (snd (post env this url data hdrs w)) this) = []"
    and "m_hdr_acc (objs (snd (post env this url data hdrs w)) this) = []"
  using r by (auto simp: post_outcome [OF h e refl] split: if_splits)

lemma residue_irrelevant:
  fixes b :: string and hs :: header_list
  assumes h: "m_h (objs w this) = Some p" and e: "handles w p = Some e"
  defines "w' \<equiv> w\<lparr>objs := (objs w)(this := (objs w this)\<lparr>m_body_acc := b, m_hdr_acc := hs\<rparr>)\<rparr>"
  shows "get env this url hdrs w' = get env this url hdrs w"
    and "post env this url data hdrs w' = post env this url data hdrs w"
proof -
  have h': "m_h (objs w' this) = Some p" and e': "handles w' p = Some e"
    using h e by (simp_all add: w'_def)
  have o: "m_opt (objs w' this) = m_opt (objs w this)"
    by (simp add: w'_def)
  have c: "(objs w' this)\<lparr>m_body_acc := [], m_hdr_acc := []\<rparr>
      = (objs w this)\<lparr>m_body_acc := [], m_hdr_acc := []\<rparr>"
    by (simp add: w'_def)
  have u: "\<And>x H. w'\<lparr>objs := (objs w')(this := x), handles := H\<rparr>
      = w\<lparr>objs := (objs w)(this := x), handles := H\<rparr>"
    by (simp add: w'_def)
  have hw: "handles w' = handles w"
    by (simp add: w'_def)
  show "get env this url hdrs w' = get env this url hdrs w"
    by (simp only: get_outcome [OF h' e' refl] get_outcome [OF h e refl]
        handle_options_get_setup [OF h' e'] handle_options_get_setup [OF h e] o c u hw)
  show "post env this url data hdrs w' = post env this url data hdrs w"
    by (simp only: post_outcome [OF h' e' refl] post_outcome [OF h e refl]
        handle_options_post_setup [OF h' e'] handle_options_post_setup [OF h e] o c u hw)
qed

lemma request_error_shape:
  assumes h: "m_h (objs w this) = Some p" and e: "handles w p = Some e"
  shows "(\<exists>r. fst (get env this url hdrs w) = Inr r)
       \<or> (\<exists>d. fst (get env this url hdrs w) = Inl (HttpError (''curl_easy_perform failed: '' @ d)))"
    and "(\<exists>r. fst (post env this url data hdrs w) = Inr r)
       \<or> (\<exists>d. fst (post env this url data hdrs w) = Inl (HttpError (''curl_easy_perform failed: '' @ d)))"
  by (simp_all add: get_outcome [OF h e refl] post_outcome [OF h e refl])

lemma options_after_request:
  assumes h: "m_h (objs w this) = Some p" and e: "handles w p = Some e"
  shows "handle_options (snd (get env this url hdrs w)) p
           = handle_options (get_setup this url hdrs w) p"
    and "handle_options (snd (post env this url data hdrs w)) p
           = handle_options (post_setup this url data hdrs w) p"
proof -
  define G where "G = handle_options (get_setup this url hdrs w) p"
  define P where "P = handle_options (post_setup this url data hdrs w) p"
  have "\<exists>rc. handles (snd (get env this url hdrs w)) p = Some \<lparr>options = G, response_code = rc\<rparr>"
    unfolding G_def by (simp add: get_outcome [OF h e refl])
  then show "handle_options (snd (get env this url hdrs w)) p
           = handle_options (get_setup this url hdrs w) p"
    unfolding G_def [symmetric] by (auto simp: handle_options_def)
  have "\<exists>rc. handles (snd (post env this url data hdrs w)) p
      = Some \<lparr>options = P, response_code = rc\<rparr>"
    unfolding P_def by (simp add: post_outcome [OF h e refl])
  then show "handle_options (snd (post env this url data hdrs w)) p
           = handle_options (post_setup this url data hdrs w) p"
    unfolding P_def [symmetric] by (auto simp: handle_options_def)
qed

lemma default_session_requests:
  assumes h: "m_h (objs w this) = Some p" and e: "handles w p = Some e"
    and o: "m_opt (objs w this) = Options_default"
  shows "get env this url hdrs w =
           perform_with_headers_and_body env this (get_setup this url hdrs w)
    \<and> handle_options (get_setup this url hdrs w) p CURLOPT_USERAGENT
        = Some (Str ''HttpClient/1.0'')
    \<and> handle_options (snd (get env this url hdrs w)) p CURLOPT_USERAGENT
        = Some (Str ''HttpClient/1.0'')
    \<and> m_opt (objs (snd (get env this url hdrs w)) this) = Options_default
    \<and> post env this url data hdrs w =
           perform_with_headers_and_body env this (post_setup this url data hdrs w)
    \<and> handle_options (post_setup this url data hdrs w) p CURLOPT_USERAGENT
        = Some (Str ''HttpClient/1.0'')
    \<and> handle_options (snd (post env this url data hdrs w)) p CURLOPT_USERAGENT
        = Some (Str ''HttpClient/1.0'')
    \<and> m_opt (objs (snd (post env this url data hdrs w)) this) = Options_default"
  by (simp add: get_def [symmetric] post_def [symmetric] options_after_request [OF h e]
      setup_user_agent [OF h e] after_get(2) [OF h e] after_post(2) [OF h e] o
      default_user_agent_baseline)

section \<open>Construction, move and destruction\<close>

lemma HttpClient_ctor_global_init_fails:
  assumes "\<not> g_curl_once w" and "global_init_rc env \<noteq> 0"
  shows "HttpClient_ctor env this opt w =
     (Some (HttpError ''curl_global_init failed''),
      w\<lparr>objs := (objs w)(this := \<lparr>m_h = None, m_opt = opt, m_body_acc = [], m_hdr_acc = []\<rparr>)\<rparr>)"
  using assms by (simp add: HttpClient_ctor_def global_init_once_def Let_def)

lemma HttpClient_ctor_easy_init_fails:
  assumes "g_curl_once w \<or> global_init_rc env = 0" and "easy_init_ptr env = None"
  shows "HttpClient_ctor env this opt w =
     (Some (HttpError ''curl_easy_init failed''),
      w\<lparr>objs := (objs w)(this := \<lparr>m_h = None, m_opt = opt, m_body_acc = [], m_hdr_acc = []\<rparr>),
        g_curl_once := True\<rparr>)"
  using assms
  by (auto simp: HttpClient_ctor_def global_init_once_def curl_easy_init_def Let_def)

lemma HttpClient_ctor_succeeds:
  assumes "g_curl_once w \<or> global_init_rc env = 0" and "easy_init_ptr env = Some p"
  shows "HttpClient_ctor env this opt w =
     (None,
      w\<lparr>objs := (objs w)(this := \<lparr>m_h = Some p, m_opt = opt, m_body_acc = [], m_hdr_acc = []\<rparr>),
        g_curl_once := True,
        handles := (handles w)(p \<mapsto> \<lparr>options = baseline_options this opt, response_code = 0\<rparr>),
        constructed := insert this (constructed w)\<rparr>)"
proof -
  let ?c = "\<lparr>m_h = Some p, m_opt = opt, m_body_acc = [], m_hdr_acc = []\<rparr>"
  let ?w2 = "w\<lparr>objs := (objs w)(this := ?c), g_curl_once := True,
               handles := (handles w)(p \<mapsto> fresh_easy)\<rparr>"
  have h: "m_h (objs ?w2 this) = Some p" and e: "handles ?w2 p = Some fresh_easy"
    by simp_all
  have a: "apply_common_options this ?w2 =
      ?w2\<lparr>handles := (handles ?w2)(p \<mapsto> \<lparr>options = baseline_options this opt, response_code = 0\<rparr>)\<rparr>"
    using apply_common_options_live [OF h e] by simp
  have w2: "(snd (curl_easy_init env (snd (global_init_once env
        (w\<lparr>objs := (objs w)(this := \<lparr>m_h = None, m_opt = opt, m_body_acc = [], m_hdr_acc = []\<rparr>)\<rparr>)))))
        \<lparr>objs := (objs w)(this := ?c)\<rparr> = ?w2"
    using assms by (auto simp: global_init_once_def curl_easy_init_def)
  have g: "fst (global_init_once env
        (w\<lparr>objs := (objs w)(this := \<lparr>m_h = None, m_opt = opt, m_body_acc = [], m_hdr_acc = []\<rparr>)\<rparr>)) = None"
    using assms by (auto simp: global_init_once_def)
  have i: "fst (curl_easy_init env w'') = Some p" for w''
    using assms by (simp add: curl_easy_init_def)
  have o: "objs (snd (curl_easy_init env (snd (global_init_once env w'')))) = objs w''"
    and c: "constructed (snd (curl_easy_init env (snd (global_init_once env w'')))) = constructed w''"
    for w''
    using assms by (auto simp: global_init_once_def curl_easy_init_def)
  show ?thesis
    unfolding HttpClient_ctor_def Let_def
    by (simp add: g i o c w2 a)
qed

lemma HttpClient_ctor_result:
  "fst (HttpClient_ctor env this opt w) =
     (if \<not> g_curl_once w \<and> global_init_rc env \<noteq> 0
      then Some (HttpError ''curl_global_init failed'')
      else if easy_init_ptr env = None then Some (HttpError ''curl_easy_init failed'')
      else None)"
proof (cases "\<not> g_curl_once w \<and> global_init_rc env \<noteq> 0")
  case True
  then show ?thesis
    by (simp add: HttpClient_ctor_global_init_fails)
next
  case False
  then have g: "g_curl_once w \<or> global_init_rc env = 0" by blast
  show ?thesis
  proof (cases "easy_init_ptr env")
    case None
    with g False show ?thesis
      by (simp add: HttpClient_ctor_easy_init_fails [OF g None])
  next
    case (Some p)
    with g False show ?thesis
      by (simp add: HttpClient_ctor_succeeds [OF g Some])
  qed
qed

lemma HttpClient_ctor_failure:
  assumes "fst (HttpClient_ctor env this opt w) \<noteq> None"
  shows "constructed (snd (HttpClient_ctor env this opt w)) = constructed w"
    and "handles (snd (HttpClient_ctor env this opt w)) = handles w"
proof -
  consider (g) "\<not> g_curl_once w" "global_init_rc env \<noteq> 0"
    | (e) "g_curl_once w \<or> global_init_rc env = 0" "easy_init_ptr env = None"
    using assms by (auto simp: HttpClient_ctor_result split: if_splits)
  then have "constructed (snd (HttpClient_ctor env this opt w)) = constructed w
      \<and> handles (snd (HttpClient_ctor env this opt w)) = handles w"
    by cases (simp_all add: HttpClient_ctor_global_init_fails HttpClient_ctor_easy_init_fails)
  then show "constructed (snd (HttpClient_ctor env this opt w)) = constructed w"
    and "handles (snd (HttpClient_ctor env this opt w)) = handles w"
    by simp_all
qed

lemma HttpClient_ctor_success:
  assumes "fst (HttpClient_ctor env this opt w) = None"
  obtains p where "easy_init_ptr env = Some p"
    and "snd (HttpClient_ctor env this opt w) =
      w\<lparr>objs := (objs w)(this := \<lparr>m_h = Some p, m_opt = opt, m_body_acc = [], m_hdr_acc = []\<rparr>),
        g_curl_once := True,
        handles := (handles w)(p \<mapsto> \<lparr>options = baseline_options this opt, response_code = 0\<rparr>),
        constructed := insert this (constructed w)\<rparr>"
proof -
  from assms have g: "g_curl_once w \<or> global_init_rc env = 0"
    and "easy_init_ptr env \<noteq> None"
    by (auto simp: HttpClient_ctor_result split: if_splits)
  then obtain p where p: "easy_init_ptr env = Some p" by blast
  show thesis
    by (rule that [OF p]) (simp add: HttpClient_ctor_succeeds [OF g p])
qed

lemma move_ctor_fields:
  assumes "this \<noteq> other"
  shows "objs (HttpClient_move_ctor this other w) this =
           \<lparr>m_h = m_h (objs w other), m_opt = m_opt (objs w other), m_body_acc = [], m_hdr_acc = []\<rparr>"
    and "objs (HttpClient_move_ctor this other w) other = (objs w other)\<lparr>m_h := None\<rparr>"
    and "handles (HttpClient_move_ctor this other w) = handles w"
    and "constructed (HttpClient_move_ctor this other w) = insert this (constructed w)"
  using assms by (simp_all add: HttpClient_move_ctor_def Let_def)

lemma move_assign_fields:
  assumes "this \<noteq> other"
  shows "objs (HttpClient_move_assign this other w) this =
           (objs w this)\<lparr>m_h := m_h (objs w other), m_opt := m_opt (objs w other)\<rparr>"
    and "objs (HttpClient_move_assign this other w) other = (objs w other)\<lparr>m_h := None\<rparr>"
    and "handles (HttpClient_move_assign this other w) =
           (case m_h (objs w this) of None \<Rightarrow> handles w | Some q \<Rightarrow> (handles w)(q := None))"
    and "constructed (HttpClient_move_assign this other w) = constructed w"
  using assms
  by (simp_all add: HttpClient_move_assign_def Let_def curl_easy_cleanup_def split: option.splits)

lemma dtor_handles:
  "handles (HttpClient_dtor a w) =
     (case m_h (objs w a) of None \<Rightarrow> handles w | Some q \<Rightarrow> (handles w)(q := None))"
  by (simp add: HttpClient_dtor_def Let_def curl_easy_cleanup_def split: option.splits)

section \<open>The concrete session evaluated\<close>

lemma example_live:
  "m_h (objs example_world 3) = Some 7" "handles example_world 7 = Some example_easy"
  by (simp_all add: example_world_def example_client_def)

lemma example_wire: "wire example_engine T = example_transfer"
  by (simp add: example_engine_def)

lemma example_code: "code (wire example_engine T) = CURLE_OK"
  by (simp add: example_engine_def example_transfer_def CURLE_OK_def)

lemma example_headers:
  "parsed_pairs (after_last_status (header_lines (callbacks example_transfer))) =
     [(''Content-Type'', ''text/html''), (''X-Flag'', [])]"
  by (simp add: example_transfer_def parsed_pairs_def after_last_status_def is_status_line_def
      skipped_line_def CRLF_def CR_def LF_def TAB_def colon_split_def)

lemma example_body: "concat (body_chunks (callbacks example_transfer)) = ''hello''"
  by (simp add: example_transfer_def)

lemma example_get:
  "get example_engine 3 url hdrs example_world =
     (Inr example_response,
      example_world\<lparr>objs := (objs example_world)
          (3 := (objs example_world 3)\<lparr>m_body_acc := [], m_hdr_acc := []\<rparr>),
        handles := (handles example_world)(7 \<mapsto>
          \<lparr>options = handle_options (get_setup 3 url hdrs example_world) 7,
           response_code = 200\<rparr>)\<rparr>)"
proof -
  have t: "example_transfer = wire example_engine (handle_options (get_setup 3 url hdrs example_world) 7)"
    by (simp add: example_engine_def)
  have c: "code example_transfer = CURLE_OK" "http_code example_transfer = 200"
    by (simp_all add: example_transfer_def CURLE_OK_def)
  show ?thesis
    by (simp only: get_outcome [OF example_live t] c example_headers example_body
        example_response_def simp_thms if_False)
qed

lemma example_post:
  "post example_engine 3 url data hdrs example_world =
     (Inr example_response,
      example_world\<lparr>objs := (objs example_world)
          (3 := (objs example_world 3)\<lparr>m_body_acc := [], m_hdr_acc := []\<rparr>),
        handles := (handles example_world)(7 \<mapsto>
          \<lparr>options = handle_options (post_setup 3 url data hdrs example_world) 7,
           response_code = 200\<rparr>)\<rparr>)"
proof -
  have t: "example_transfer =
      wire example_engine (handle_options (post_setup 3 url data hdrs example_world) 7)"
    by (simp add: example_engine_def)
  have c: "code example_transfer = CURLE_OK" "http_code example_transfer = 200"
    by (simp_all add: example_transfer_def CURLE_OK_def)
  show ?thesis
    by (simp only: post_outcome [OF example_live t] c example_headers example_body
        example_response_def simp_thms if_False)
qed

lemma example_engine_requests:
  assumes h: "m_h (objs w this) = Some p" and e: "handles w p = Some e"
  shows "fst (get example_engine this url hdrs w) = Inr example_response"
    and "fst (post example_engine this url data hdrs w) = Inr example_response"
proof -
  have c: "code example_transfer = CURLE_OK" "http_code example_transfer = 200"
    by (simp_all add: example_transfer_def CURLE_OK_def)
  show "fst (get example_engine this url hdrs w) = Inr example_response"
    by (simp add: get_outcome [OF h e refl] example_wire c example_headers example_body
        example_response_def)
  show "fst (post example_engine this url data hdrs w) = Inr example_response"
    by (simp add: post_outcome [OF h e refl] example_wire c example_headers example_body
        example_response_def)
qed

lemma timeout_wire:
  "code (wire timeout_engine T) = 28" "code (wire timeout_engine T) \<noteq> CURLE_OK"
  "strerror timeout_engine c = ''Timeout was reached''"
  by (simp_all add: timeout_engine_def CURLE_OK_def)

lemma example_get_times_out:
  "fst (get timeout_engine 3 url hdrs example_world)
     = Inl (HttpError ''curl_easy_perform failed: Timeout was reached'')"
  by (simp add: get_outcome [OF example_live refl] timeout_wire CURLE_OK_def)

lemma example_ctor_fails:
  "HttpClient_ctor no_handle_engine 5 Options_default example_world =
     (Some (HttpError ''curl_easy_init failed''),
      example_world\<lparr>objs := (objs example_world)(5 := no_client), g_curl_once := True\<rparr>)"
proof -
  have g: "g_curl_once example_world \<or> global_init_rc no_handle_engine = 0"
    and i: "easy_init_ptr no_handle_engine = None"
    by (simp_all add: example_world_def no_handle_engine_def)
  show ?thesis
    by (simp add: HttpClient_ctor_easy_init_fails [OF g i] no_client_def)
qed

lemma example_baseline:
  "baseline_options 3 Options_default = 
     [CURLOPT_WRITEFUNCTION \<mapsto> Fun Write_body_cb, CURLOPT_WRITEDATA \<mapsto> Ptr 3,
      CURLOPT_HEADERFUNCTION \<mapsto> Fun Write_header_cb, CURLOPT_HEADERDATA \<mapsto> Ptr 3,
      CURLOPT_TIMEOUT_MS \<mapsto> Long 15000, CURLOPT_FOLLOWLOCATION \<mapsto> Long 1,
      CURLOPT_USERAGENT \<mapsto> Str ''HttpClient/1.0'', CURLOPT_SSL_VERIFYPEER \<mapsto> Long 1,
      CURLOPT_SSL_VERIFYHOST \<mapsto> Long 2]"
proof (rule ext)
  fix x
  show "baseline_options 3 Options_default x =
     [CURLOPT_WRITEFUNCTION \<mapsto> Fun Write_body_cb, CURLOPT_WRITEDATA \<mapsto> Ptr 3,
      CURLOPT_HEADERFUNCTION \<mapsto> Fun Write_header_cb, CURLOPT_HEADERDATA \<mapsto> Ptr 3,
      CURLOPT_TIMEOUT_MS \<mapsto> Long 15000, CURLOPT_FOLLOWLOCATION \<mapsto> Long 1,
      CURLOPT_USERAGENT \<mapsto> Str ''HttpClient/1.0'', CURLOPT_SSL_VERIFYPEER \<mapsto> Long 1,
      CURLOPT_SSL_VERIFYHOST \<mapsto> Long 2] x"
    by (cases x) (simp_all add: baseline_options_def Options_default_def c_str_def NUL_def)
qed

lemma two_sessions_facts:
  "m_h (objs two_sessions 3) = Some 7" "handles two_sessions 7 = Some example_easy"
  "m_h (objs two_sessions 4) = Some 9" "handles two_sessions 9 = Some fresh_easy"
  by (simp_all add: two_sessions_def example_world_def example_client_def no_client_def)

section \<open>The claims\<close>

text \<open>
  Throughout, a session \<open>owns a live handle\<close> when its member \<open>m_h\<close> is a pointer \<open>p\<close> and
  \<open>p\<close> is a live handle of the process.  For a request on such a session,
  \<open>handle_options (get_setup this url hdrs w) p\<close> is the option table of the handle at
  the moment \<open>get\<close> performs the transfer, and \<open>wire env\<close> of that table is the transfer
  the engine produces for it; likewise for \<open>post\<close>.
\<close>

text \<open>
  C1.  Whatever sequence of header lines the engine delivers during one request, the
  headers of the returned response are exactly the pairs parsed from the lines received
  after the last status-line (a line beginning with \<open>HTTP/\<close>), in the order received:
  the header callback empties the accumulator at every status-line, so no pair of an
  earlier section survives.  Stated for the callback and for both \<open>get\<close> and \<open>post\<close> on a
  session that owns a live handle.
\<close>

theorem C1_headers_from_final_section:
  assumes "m_h (objs w this) = Some p" and "handles w p = Some e"
  shows "(is_status_line l \<longrightarrow> m_hdr_acc (snd (write_header_cb l self)) = [])
    \<and> (fst (get env this url hdrs w) = Inr r \<longrightarrow>
         headers r = parsed_pairs (after_last_status (header_lines (callbacks
           (wire env (handle_options (get_setup this url hdrs w) p))))))
    \<and> (fst (post env this url data hdrs w) = Inr r' \<longrightarrow>
         headers r' = parsed_pairs (after_last_status (header_lines (callbacks
           (wire env (handle_options (post_setup this url data hdrs w) p))))))"
proof (intro conjI impI)
  assume "is_status_line l"
  then show "m_hdr_acc (snd (write_header_cb l self)) = []"
    by (simp add: snd_write_header_cb)
next
  assume "fst (get env this url hdrs w) = Inr r"
  then show "headers r = parsed_pairs (after_last_status (header_lines (callbacks
           (wire env (handle_options (get_setup this url hdrs w) p)))))"
    by (auto simp: get_outcome [OF assms refl] split: if_splits)
next
  assume "fst (post env this url data hdrs w) = Inr r'"
  then show "headers r' = parsed_pairs (after_last_status (header_lines (callbacks
           (wire env (handle_options (post_setup this url data hdrs w) p)))))"
    by (auto simp: post_outcome [OF assms refl] split: if_splits)
qed

theorem C1_witness:
  "m_h (objs example_world 3) = Some 7 \<and> handles example_world 7 = Some example_easy
   \<and> is_status_line ''HTTP/1.1 200 OK''
   \<and> m_hdr_acc (snd (write_header_cb ''HTTP/1.1 200 OK'' example_client)) = []
   \<and> fst (get example_engine 3 ''http://example.org/'' [] example_world) = Inr example_response
   \<and> fst (post example_engine 3 ''http://example.org/'' ''a=1'' [] example_world)
       = Inr example_response
   \<and> headers example_response = [(''Content-Type'', ''text/html''), (''X-Flag'', [])]"
  using C1_headers_from_final_section [OF example_live, of "''HTTP/1.1 200 OK''" example_client
      example_engine "''http://example.org/''" "[]" example_response "''a=1''" example_response]
  by (simp add: example_live example_get example_post example_wire example_headers
      is_status_line_def)

text \<open>
  C2.  Both accumulators are cleared at the start of every \<open>get\<close> and \<open>post\<close>, before the
  transfer runs, and on success they are moved into the returned response.  So what the
  accumulators held when the call began has no effect on the call, a successful call
  leaves them empty, and of two calls in sequence on one session the second returns a
  body and headers made of the second transfer's data alone, whether the first call
  succeeded or failed.
\<close>

theorem C2_no_residue_between_calls:
  fixes b :: string and hs :: header_list
  assumes "m_h (objs w this) = Some p" and "handles w p = Some e"
    and "w' = snd (get env' this url' hdrs' w) \<or> w' = snd (post env' this url' data' hdrs' w)"
  shows "get env this url hdrs
           (w\<lparr>objs := (objs w)(this := (objs w this)\<lparr>m_body_acc := b, m_hdr_acc := hs\<rparr>)\<rparr>)
         = get env this url hdrs w
    \<and> post env this url data hdrs
           (w\<lparr>objs := (objs w)(this := (objs w this)\<lparr>m_body_acc := b, m_hdr_acc := hs\<rparr>)\<rparr>)
         = post env this url data hdrs w
    \<and> (fst (get env'' this url'' hdrs'' w') = Inr r \<longrightarrow>
          body r = concat (body_chunks (callbacks
            (wire env'' (handle_options (get_setup this url'' hdrs'' w') p))))
        \<and> headers r = parsed_pairs (after_last_status (header_lines (callbacks
            (wire env'' (handle_options (get_setup this url'' hdrs'' w') p)))))
        \<and> m_body_acc (objs (snd (get env'' this url'' hdrs'' w')) this) = []
        \<and> m_hdr_acc (objs (snd (get env'' this url'' hdrs'' w')) this) = [])
    \<and> (fst (post env'' this url'' data'' hdrs'' w') = Inr r' \<longrightarrow>
          body r' = concat (body_chunks (callbacks
            (wire env'' (handle_options (post_setup this url'' data'' hdrs'' w') p))))
        \<and> headers r' = parsed_pairs (after_last_status (header_lines (callbacks
            (wire env'' (handle_options (post_setup this url'' data'' hdrs'' w') p)))))
        \<and> m_body_acc (objs (snd (post env'' this url'' data'' hdrs'' w')) this) = []
        \<and> m_hdr_acc (objs (snd (post env'' this url'' data'' hdrs'' w')) this) = [])"
proof -
  have h1: "m_h (objs w' this) = Some p"
    using assms(3) after_get(1) [OF assms(1,2)] after_post(1) [OF assms(1,2)] by auto
  obtain e1 where e1: "handles w' p = Some e1"
    using assms(3) after_get(3) [OF assms(1,2)] after_post(3) [OF assms(1,2)] by blast
  show ?thesis
  proof (intro conjI impI)
    show "get env this url hdrs
           (w\<lparr>objs := (objs w)(this := (objs w this)\<lparr>m_body_acc := b, m_hdr_acc := hs\<rparr>)\<rparr>)
         = get env this url hdrs w"
      by (rule residue_irrelevant(1) [OF assms(1,2)])
    show "post env this url data hdrs
           (w\<lparr>objs := (objs w)(this := (objs w this)\<lparr>m_body_acc := b, m_hdr_acc := hs\<rparr>)\<rparr>)
         = post env this url data hdrs w"
      by (rule residue_irrelevant(2) [OF assms(1,2)])
  next
    assume r: "fst (get env'' this url'' hdrs'' w') = Inr r"
    show "body r = concat (body_chunks (callbacks
            (wire env'' (handle_options (get_setup this url'' hdrs'' w') p))))"
      by (rule get_response(1) [OF h1 e1 r])
    show "headers r = parsed_pairs (after_last_status (header_lines (callbacks
            (wire env'' (handle_options (get_setup this url'' hdrs'' w') p)))))"
      by (rule get_response(2) [OF h1 e1 r])
    show "m_body_acc (objs (snd (get env'' this url'' hdrs'' w')) this) = []"
      by (rule get_response(3) [OF h1 e1 r])
    show "m_hdr_acc (objs (snd (get env'' this url'' hdrs'' w')) this) = []"
      by (rule get_response(4) [OF h1 e1 r])
  next
    assume r: "fst (post env'' this url'' data'' hdrs'' w') = Inr r'"
    show "body r' = concat (body_chunks (callbacks
            (wire env'' (handle_options (post_setup this url'' data'' hdrs'' w') p))))"
      by (rule post_response(1) [OF h1 e1 r])
    show "headers r' = parsed_pairs (after_last_status (header_lines (callbacks
            (wire env'' (handle_options (post_setup this url'' data'' hdrs'' w') p)))))"
      by (rule post_response(2) [OF h1 e1 r])
    show "m_body_acc (objs (snd (post env'' this url'' data'' hdrs'' w')) this) = []"
      by (rule post_response(3) [OF h1 e1 r])
    show "m_hdr_acc (objs (snd (post env'' this url'' data'' hdrs'' w')) this) = []"
      by (rule post_response(4) [OF h1 e1 r])
  qed
qed

theorem C2_witness:
  "m_h (objs example_world 3) = Some 7 \<and> handles example_world 7 = Some example_easy
   \<and> m_body_acc (objs example_world 3) = ''residue''
   \<and> fst (get timeout_engine 3 ''http://example.org/a'' [] example_world)
       = Inl (HttpError ''curl_easy_perform failed: Timeout was reached'')
   \<and> m_body_acc (objs (snd (get timeout_engine 3 ''http://example.org/a'' [] example_world)) 3)
       = ''par''
   \<and> fst (get example_engine 3 ''http://example.org/b'' []
        (snd (get timeout_engine 3 ''http://example.org/a'' [] example_world)))
       = Inr example_response
   \<and> fst (post example_engine 3 ''http://example.org/b'' ''a=1'' []
        (snd (get timeout_engine 3 ''http://example.org/a'' [] example_world)))
       = Inr example_response
   \<and> body example_response = ''hello''
   \<and> headers example_response = [(''Content-Type'', ''text/html''), (''X-Flag'', [])]
   \<and> m_body_acc (objs (snd (get example_engine 3 ''http://example.org/b'' []
        (snd (get timeout_engine 3 ''http://example.org/a'' [] example_world)))) 3) = []
   \<and> m_hdr_acc (objs (snd (get example_engine 3 ''http://example.org/b'' []
        (snd (get timeout_engine 3 ''http://example.org/a'' [] example_world)))) 3) = []"
proof -
  let ?w1 = "snd (get timeout_engine 3 ''http://example.org/a'' [] example_world)"
  have h1: "m_h (objs ?w1 3) = Some 7"
    by (rule after_get(1) [OF example_live])
  obtain e1 where e1: "handles ?w1 7 = Some e1"
    using after_get(3) [OF example_live] by blast
  have first: "get timeout_engine 3 ''http://example.org/a'' [] example_world
      = (Inl (HttpError ''curl_easy_perform failed: Timeout was reached''),
         example_world\<lparr>objs := (objs example_world)(3 := example_client
              \<lparr>m_body_acc := ''par'', m_hdr_acc := []\<rparr>),
           handles := (handles example_world)(7 \<mapsto>
              \<lparr>options = handle_options (get_setup 3 ''http://example.org/a'' [] example_world) 7,
               response_code = 200\<rparr>)\<rparr>)"
    by (subst get_outcome [OF example_live refl])
       (simp add: timeout_engine_def CURLE_OK_def snd_write_header_cb is_status_line_def
         write_body_cb_def example_world_def example_client_def)
  have g: "fst (get example_engine 3 ''http://example.org/b'' [] ?w1) = Inr example_response"
    and p: "fst (post example_engine 3 ''http://example.org/b'' ''a=1'' [] ?w1)
        = Inr example_response"
    by (rule example_engine_requests [OF h1 e1])+
  have seq: "?w1 = snd (get timeout_engine 3 ''http://example.org/a'' [] example_world)
      \<or> ?w1 = snd (post timeout_engine 3 ''http://example.org/a'' [] [] example_world)"
    by simp
  note inst = C2_no_residue_between_calls [OF example_live seq, where env = example_engine
      and url = "[]" and hdrs = "[]" and data = "[]" and b = "[]" and hs = "[]"
      and env'' = example_engine and url'' = "''http://example.org/b''" and hdrs'' = "[]"
      and data'' = "''a=1''" and r = example_response and r' = example_response]
  from inst g have
    "m_body_acc (objs (snd (get example_engine 3 ''http://example.org/b'' [] ?w1)) 3) = []"
    "m_hdr_acc (objs (snd (get example_engine 3 ''http://example.org/b'' [] ?w1)) 3) = []"
    by blast+
  moreover have "m_body_acc (objs ?w1 3) = ''par''"
    by (simp add: first)
  moreover have "m_body_acc (objs example_world 3) = ''residue''"
    by (simp add: example_world_def example_client_def)
  moreover have "body example_response = ''hello''"
    "headers example_response = [(''Content-Type'', ''text/html''), (''X-Flag'', [])]"
    by (simp_all add: example_response_def)
  ultimately show ?thesis
    using example_live g p first by simp
qed

text \<open>
  C3.  On a session that owns a live handle, whenever the engine's perform reports
  failure, \<open>get\<close> and \<open>post\<close> throw the error whose message is
  \<open>curl_easy_perform failed: \<close> followed by the engine's diagnostic string, and return no
  response; the session keeps its handle, its options and its place, and a later call
  on it returns a response when the engine succeeds.  When perform reports success no
  error is thrown and a response is returned.
\<close>

theorem C3_transfer_failure_raises:
  assumes "m_h (objs w this) = Some p" and "handles w p = Some e"
    and "t = wire env (handle_options (get_setup this url hdrs w) p)"
    and "t' = wire env (handle_options (post_setup this url data hdrs w) p)"
    and "w' = snd (get env this url hdrs w) \<or> w' = snd (post env this url data hdrs w)"
  shows "(code t \<noteq> CURLE_OK \<longrightarrow> fst (get env this url hdrs w) =
            Inl (HttpError (''curl_easy_perform failed: '' @ strerror env (code t))))
    \<and> (code t = CURLE_OK \<longrightarrow> (\<exists>r. fst (get env this url hdrs w) = Inr r))
    \<and> (code t' \<noteq> CURLE_OK \<longrightarrow> fst (post env this url data hdrs w) =
            Inl (HttpError (''curl_easy_perform failed: '' @ strerror env (code t'))))
    \<and> (code t' = CURLE_OK \<longrightarrow> (\<exists>r. fst (post env this url data hdrs w) = Inr r))
    \<and> m_h (objs w' this) = Some p \<and> (\<exists>e'. handles w' p = Some e')
    \<and> m_opt (objs w' this) = m_opt (objs w this) \<and> constructed w' = constructed w
    \<and> (code (wire env'' (handle_options (get_setup this url'' hdrs'' w') p)) = CURLE_OK \<longrightarrow>
          (\<exists>r. fst (get env'' this url'' hdrs'' w') = Inr r))
    \<and> (code (wire env'' (handle_options (post_setup this url'' data'' hdrs'' w') p)) = CURLE_OK \<longrightarrow>
          (\<exists>r. fst (post env'' this url'' data'' hdrs'' w') = Inr r))"
proof -
  have h1: "m_h (objs w' this) = Some p"
    using assms(5) after_get(1) [OF assms(1,2)] after_post(1) [OF assms(1,2)] by auto
  obtain e1 where e1: "handles w' p = Some e1"
    using assms(5) after_get(3) [OF assms(1,2)] after_post(3) [OF assms(1,2)] by blast
  have o1: "m_opt (objs w' this) = m_opt (objs w this)"
    using assms(5) after_get(2) [OF assms(1,2)] after_post(2) [OF assms(1,2)] by auto
  have c1: "constructed w' = constructed w"
    using assms(5) after_get(4) [OF assms(1,2)] after_post(4) [OF assms(1,2)] by auto
  show ?thesis
  proof (intro conjI impI)
    assume "code t \<noteq> CURLE_OK"
    then show "fst (get env this url hdrs w) =
        Inl (HttpError (''curl_easy_perform failed: '' @ strerror env (code t)))"
      by (simp add: get_outcome [OF assms(1,2,3)])
  next
    assume "code t = CURLE_OK"
    then show "\<exists>r. fst (get env this url hdrs w) = Inr r"
      by (simp add: get_outcome [OF assms(1,2,3)])
  next
    assume "code t' \<noteq> CURLE_OK"
    then show "fst (post env this url data hdrs w) =
        Inl (HttpError (''curl_easy_perform failed: '' @ strerror env (code t')))"
      by (simp add: post_outcome [OF assms(1,2,4)])
  next
    assume "code t' = CURLE_OK"
    then show "\<exists>r. fst (post env this url data hdrs w) = Inr r"
      by (simp add: post_outcome [OF assms(1,2,4)])
  next
    show "m_h (objs w' this) = Some p" by (rule h1)
    show "\<exists>e'. handles w' p = Some e'" using e1 by blast
    show "m_opt (objs w' this) = m_opt (objs w this)" by (rule o1)
    show "constructed w' = constructed w" by (rule c1)
  next
    assume "code (wire env'' (handle_options (get_setup this url'' hdrs'' w') p)) = CURLE_OK"
    then show "\<exists>r. fst (get env'' this url'' hdrs'' w') = Inr r"
      by (simp add: get_outcome [OF h1 e1 refl])
  next
    assume "code (wire env'' (handle_options (post_setup this url'' data'' hdrs'' w') p)) = CURLE_OK"
    then show "\<exists>r. fst (post env'' this url'' data'' hdrs'' w') = Inr r"
      by (simp add: post_outcome [OF h1 e1 refl])
  qed
qed

theorem C3_witness:
  "m_h (objs example_world 3) = Some 7 \<and> handles example_world 7 = Some example_easy
   \<and> code (wire timeout_engine (handle_options (get_setup 3 ''http://example.org/'' []
        example_world) 7)) \<noteq> CURLE_OK
   \<and> fst (get timeout_engine 3 ''http://example.org/'' [] example_world)
       = Inl (HttpError ''curl_easy_perform failed: Timeout was reached'')
   \<and> code (wire timeout_engine (handle_options (post_setup 3 ''http://example.org/'' ''a=1'' []
        example_world) 7)) \<noteq> CURLE_OK
   \<and> fst (post timeout_engine 3 ''http://example.org/'' ''a=1'' [] example_world)
       = Inl (HttpError ''curl_easy_perform failed: Timeout was reached'')
   \<and> m_h (objs (snd (get timeout_engine 3 ''http://example.org/'' [] example_world)) 3) = Some 7
   \<and> code (wire example_engine (handle_options (get_setup 3 ''http://example.org/'' []
        (snd (get timeout_engine 3 ''http://example.org/'' [] example_world))) 7)) = CURLE_OK
   \<and> (\<exists>r. fst (get example_engine 3 ''http://example.org/'' []
        (snd (get timeout_engine 3 ''http://example.org/'' [] example_world))) = Inr r)
   \<and> code (wire example_engine (handle_options (post_setup 3 ''http://example.org/'' ''a=1'' []
        (snd (get timeout_engine 3 ''http://example.org/'' [] example_world))) 7)) = CURLE_OK
   \<and> (\<exists>r. fst (post example_engine 3 ''http://example.org/'' ''a=1'' []
        (snd (get timeout_engine 3 ''http://example.org/'' [] example_world))) = Inr r)
   \<and> code (wire example_engine (handle_options (get_setup 3 ''http://example.org/'' []
        example_world) 7)) = CURLE_OK
   \<and> (\<exists>r. fst (get example_engine 3 ''http://example.org/'' [] example_world) = Inr r)
   \<and> code (wire example_engine (handle_options (post_setup 3 ''http://example.org/'' ''a=1'' []
        example_world) 7)) = CURLE_OK
   \<and> (\<exists>r. fst (post example_engine 3 ''http://example.org/'' ''a=1'' [] example_world) = Inr r)"
proof -
  let ?w1 = "snd (get timeout_engine 3 ''http://example.org/'' [] example_world)"
  have seq: "?w1 = snd (get timeout_engine 3 ''http://example.org/'' [] example_world)
      \<or> ?w1 = snd (post timeout_engine 3 ''http://example.org/'' ''a=1'' [] example_world)"
    by simp
  note failing = C3_transfer_failure_raises [OF example_live refl refl seq,
      where env'' = example_engine and url'' = "''http://example.org/''" and hdrs'' = "[]"
      and data'' = "''a=1''"]
  note working = C3_transfer_failure_raises [OF example_live refl refl disjI1 [OF refl],
      where env = example_engine and url = "''http://example.org/''" and hdrs = "[]"
      and data = "''a=1''" and env'' = example_engine and url'' = "''http://example.org/''"
      and hdrs'' = "[]" and data'' = "''a=1''"]
  show ?thesis
    using failing working
    by (simp add: example_live timeout_wire example_code CURLE_OK_def)
qed

text \<open>
  C4 (as amended).  For a single line handed to the header callback that is not a
  status-line and that is empty or ends in CR LF with no CR LF before that: a blank line
  leaves the header accumulator as it is; any other line, taken without its line end,
  is split at its first colon, the part before the colon being the name and the part
  after it, with leading spaces and tabs trimmed, the value, and the pair is appended; a
  line with no colon gives the pair of the line without its line end and the empty
  string.  The second conjunct gives the callback's result on every line that is not a
  status-line, in terms of its own two tests; the last two spell out the colon rule.
\<close>

theorem C4_header_line_rule:
  assumes "\<not> is_status_line line"
  shows "(line = [] \<or> (line = content @ CRLF \<and> \<not> contains_crlf content) \<longrightarrow>
           snd (write_header_cb line self) =
             (if blank_line line then self
              else self\<lparr>m_hdr_acc :=
                     m_hdr_acc self @ [colon_split (without_line_end line)]\<rparr>))
    \<and> snd (write_header_cb line self) =
         (if skipped_line line then self
          else self\<lparr>m_hdr_acc := m_hdr_acc self @ [colon_split (before_crlf line)]\<rparr>)
    \<and> (CHR '':'' \<notin> set l \<longrightarrow> colon_split l = (l, []))
    \<and> (l = name @ '':'' @ ws @ v \<and> CHR '':'' \<notin> set name
         \<and> set ws \<subseteq> {CHR '' '', TAB} \<and> (v = [] \<or> (hd v \<noteq> CHR '' '' \<and> hd v \<noteq> TAB)) \<longrightarrow>
         colon_split l = (name, v))"
proof (intro conjI impI)
  assume "line = [] \<or> (line = content @ CRLF \<and> \<not> contains_crlf content)"
  then show "snd (write_header_cb line self) =
             (if blank_line line then self
              else self\<lparr>m_hdr_acc :=
                     m_hdr_acc self @ [colon_split (without_line_end line)]\<rparr>)"
    by (rule write_header_cb_terminated [OF assms])
next
  show "snd (write_header_cb line self) =
         (if skipped_line line then self
          else self\<lparr>m_hdr_acc := m_hdr_acc self @ [colon_split (before_crlf line)]\<rparr>)"
    using assms by (simp add: snd_write_header_cb)
next
  assume "CHR '':'' \<notin> set l"
  then show "colon_split l = (l, [])"
    by (simp add: colon_split_def)
next
  assume a: "l = name @ '':'' @ ws @ v \<and> CHR '':'' \<notin> set name
         \<and> set ws \<subseteq> {CHR '' '', TAB} \<and> (v = [] \<or> (hd v \<noteq> CHR '' '' \<and> hd v \<noteq> TAB))"
  then have "colon_split (name @ '':'' @ ws @ v) = (name, v)"
    by (intro colon_split_parts) blast+
  with a show "colon_split l = (name, v)"
    by simp
qed

theorem C4_witness:
  "\<not> is_status_line (''Content-Type: '' @ [TAB] @ '' text/html'' @ CRLF)
   \<and> \<not> contains_crlf (''Content-Type: '' @ [TAB] @ '' text/html'')
   \<and> \<not> blank_line (''Content-Type: '' @ [TAB] @ '' text/html'' @ CRLF)
   \<and> without_line_end (''Content-Type: '' @ [TAB] @ '' text/html'' @ CRLF)
       = ''Content-Type'' @ '':'' @ ('' '' @ [TAB] @ '' '') @ ''text/html''
   \<and> CHR '':'' \<notin> set ''Content-Type'' \<and> set ('' '' @ [TAB] @ '' '') \<subseteq> {CHR '' '', TAB}
   \<and> (''text/html'' = [] \<or> (hd ''text/html'' \<noteq> CHR '' '' \<and> hd ''text/html'' \<noteq> TAB))
   \<and> snd (write_header_cb (''Content-Type: '' @ [TAB] @ '' text/html'' @ CRLF) example_client)
       = example_client\<lparr>m_hdr_acc := [(''X-Old'', ''1''), (''Content-Type'', ''text/html'')]\<rparr>
   \<and> \<not> is_status_line (''X-Flag'' @ CRLF) \<and> \<not> contains_crlf ''X-Flag''
   \<and> CHR '':'' \<notin> set ''X-Flag''
   \<and> snd (write_header_cb (''X-Flag'' @ CRLF) example_client)
       = example_client\<lparr>m_hdr_acc := [(''X-Old'', ''1''), (''X-Flag'', [])]\<rparr>
   \<and> \<not> is_status_line CRLF \<and> blank_line CRLF
   \<and> snd (write_header_cb CRLF example_client) = example_client
   \<and> \<not> is_status_line [] \<and> blank_line []
   \<and> snd (write_header_cb [] example_client) = example_client"
proof -
  have s: "\<not> is_status_line (''Content-Type: '' @ [TAB] @ '' text/html'' @ CRLF)"
    "\<not> is_status_line (''X-Flag'' @ CRLF)" "\<not> is_status_line CRLF" "\<not> is_status_line []"
    by (simp_all add: is_status_line_def CRLF_def)
  have c: "\<not> contains_crlf (''Content-Type: '' @ [TAB] @ '' text/html'')"
    "\<not> contains_crlf ''X-Flag''" "\<not> contains_crlf []"
    by (simp_all add: CRLF_def CR_def LF_def TAB_def)
  have b: "\<not> blank_line (''Content-Type: '' @ [TAB] @ '' text/html'' @ CRLF)"
    "\<not> blank_line (''X-Flag'' @ CRLF)" "blank_line CRLF" "blank_line []"
    by (simp_all add: blank_line_def CRLF_def)
  have w: "without_line_end (''Content-Type: '' @ [TAB] @ '' text/html'' @ CRLF)
       = ''Content-Type'' @ '':'' @ ('' '' @ [TAB] @ '' '') @ ''text/html''"
    "without_line_end (''X-Flag'' @ CRLF) = ''X-Flag''"
    using without_line_end_terminated [of "''Content-Type: '' @ [TAB] @ '' text/html''"]
      without_line_end_terminated [of "''X-Flag''"]
    by simp_all
  have p: "CHR '':'' \<notin> set ''Content-Type''" "set ('' '' @ [TAB] @ '' '') \<subseteq> {CHR '' '', TAB}"
    "''text/html'' = [] \<or> (hd ''text/html'' \<noteq> CHR '' '' \<and> hd ''text/html'' \<noteq> TAB)"
    "CHR '':'' \<notin> set ''X-Flag''"
    by (simp_all add: TAB_def)
  note r1 = C4_header_line_rule [OF s(1), where content = "''Content-Type: '' @ [TAB] @ '' text/html''"
      and self = example_client and name = "''Content-Type''" and ws = "'' '' @ [TAB] @ '' ''"
      and v = "''text/html''"
      and l = "''Content-Type'' @ '':'' @ ('' '' @ [TAB] @ '' '') @ ''text/html''"]
  note r2 = C4_header_line_rule [OF s(2), where content = "''X-Flag''" and self = example_client
      and l = "''X-Flag''" and name = "[]" and ws = "[]" and v = "[]"]
  note r3 = C4_header_line_rule [OF s(3), where content = "[]" and self = example_client
      and l = "[]" and name = "[]" and ws = "[]" and v = "[]"]
  note r4 = C4_header_line_rule [OF s(4), where content = "[]" and self = example_client
      and l = "[]" and name = "[]" and ws = "[]" and v = "[]"]
  from r1 c(1) b(1) w(1) p(1,2,3)
  have "snd (write_header_cb (''Content-Type: '' @ [TAB] @ '' text/html'' @ CRLF) example_client)
       = example_client\<lparr>m_hdr_acc := [(''X-Old'', ''1''), (''Content-Type'', ''text/html'')]\<rparr>"
    by (simp add: example_client_def)
  moreover from r2 c(2) b(2) w(2) p(4)
  have "snd (write_header_cb (''X-Flag'' @ CRLF) example_client)
       = example_client\<lparr>m_hdr_acc := [(''X-Old'', ''1''), (''X-Flag'', [])]\<rparr>"
    by (simp add: example_client_def)
  moreover from r3 c(3) b(3)
  have "snd (write_header_cb CRLF example_client) = example_client"
    by simp
  moreover from r4 b(4)
  have "snd (write_header_cb [] example_client) = example_client"
    by simp
  ultimately show ?thesis
    using s c b w p by simp
qed

text \<open>
  C4 as stated fails where the line end is a bare LF: the blank line \<open>[LF]\<close> is not left
  out but stored as the pair \<open>([LF], [])\<close>, and a header line ending in LF keeps the LF in
  its value.
\<close>

theorem C4_counterexample:
  "\<not> is_status_line [LF] \<and> blank_line [LF]
   \<and> snd (write_header_cb [LF] example_client)
       = example_client\<lparr>m_hdr_acc := [(''X-Old'', ''1''), ([LF], [])]\<rparr>
   \<and> snd (write_header_cb [LF] example_client) \<noteq> example_client
   \<and> \<not> is_status_line (''Foo: bar'' @ [LF])
   \<and> without_line_end (''Foo: bar'' @ [LF]) = ''Foo: bar''
   \<and> snd (write_header_cb (''Foo: bar'' @ [LF]) example_client)
       = example_client\<lparr>m_hdr_acc := [(''X-Old'', ''1''), (''Foo'', ''bar'' @ [LF])]\<rparr>"
  by (simp add: snd_write_header_cb is_status_line_def skipped_line_def blank_line_def
      without_line_end_def colon_split_def CRLF_def CR_def LF_def TAB_def example_client_def)

text \<open>
  C5.  Whatever sequence of body chunks the engine delivers during one request, the body
  of the returned response is the concatenation of the chunks, byte for byte and in the
  order of invocation: the body callback appends each chunk unchanged.  Stated for the
  callback and for both \<open>get\<close> and \<open>post\<close> on a session that owns a live handle.
\<close>

theorem C5_body_is_concatenation:
  assumes "m_h (objs w this) = Some p" and "handles w p = Some e"
  shows "snd (write_body_cb chunk self) = self\<lparr>m_body_acc := m_body_acc self @ chunk\<rparr>
    \<and> (fst (get env this url hdrs w) = Inr r \<longrightarrow>
         body r = concat (body_chunks (callbacks
           (wire env (handle_options (get_setup this url hdrs w) p)))))
    \<and> (fst (post env this url data hdrs w) = Inr r' \<longrightarrow>
         body r' = concat (body_chunks (callbacks
           (wire env (handle_options (post_setup this url data hdrs w) p)))))"
proof (intro conjI impI)
  show "snd (write_body_cb chunk self) = self\<lparr>m_body_acc := m_body_acc self @ chunk\<rparr>"
    by (simp add: write_body_cb_def)
next
  assume "fst (get env this url hdrs w) = Inr r"
  then show "body r = concat (body_chunks (callbacks
           (wire env (handle_options (get_setup this url hdrs w) p))))"
    by (auto simp: get_outcome [OF assms refl] split: if_splits)
next
  assume "fst (post env this url data hdrs w) = Inr r'"
  then show "body r' = concat (body_chunks (callbacks
           (wire env (handle_options (post_setup this url data hdrs w) p))))"
    by (auto simp: post_outcome [OF assms refl] split: if_splits)
qed

theorem C5_witness:
  "m_h (objs example_world 3) = Some 7 \<and> handles example_world 7 = Some example_easy
   \<and> fst (get example_engine 3 ''http://example.org/'' [] example_world) = Inr example_response
   \<and> fst (post example_engine 3 ''http://example.org/'' ''a=1'' [] example_world)
       = Inr example_response
   \<and> body example_response = concat [''hel'', ''lo'']"
  using C5_body_is_concatenation [OF example_live, of "''x''" example_client
      example_engine "''http://example.org/''" "[]" example_response "''a=1''" example_response]
  by (simp add: example_live example_get example_post example_wire example_body)

text \<open>
  C6.  For every body passed to \<open>post\<close>, whatever bytes it contains (zero bytes
  included), the wrapper sets \<open>CURLOPT_POSTFIELDS\<close> to the body's buffer and
  \<open>CURLOPT_POSTFIELDSIZE\<close> to the body's full size before it performs the transfer, so
  the length is given explicitly.  The size is cast to \<open>long\<close>, which is exact for every
  body shorter than \<open>2 ^ 63\<close> bytes.
\<close>

theorem C6_post_explicit_length:
  assumes "m_h (objs w this) = Some p" and "handles w p = Some e"
    and "length data < 2 ^ 63"
  shows "post env this url data hdrs w =
           perform_with_headers_and_body env this (post_setup this url data hdrs w)
    \<and> handle_options (post_setup this url data hdrs w) p CURLOPT_POSTFIELDS = Some (Data data)
    \<and> handle_options (post_setup this url data hdrs w) p CURLOPT_POSTFIELDSIZE
        = Some (Long (word_of_nat (length data)))
    \<and> sint (word_of_nat (length data) :: long) = int (length data)"
  by (simp add: post_def handle_options_post_setup [OF assms(1,2)] with_headers_other
      sint_size_cast [OF assms(3)])

theorem C6_witness:
  "m_h (objs example_world 3) = Some 7 \<and> handles example_world 7 = Some example_easy
   \<and> length (''a'' @ [NUL] @ ''b'') < 2 ^ 63
   \<and> handle_options (post_setup 3 ''http://example.org/'' (''a'' @ [NUL] @ ''b'') [] example_world)
        7 CURLOPT_POSTFIELDS = Some (Data (''a'' @ [NUL] @ ''b''))
   \<and> handle_options (post_setup 3 ''http://example.org/'' (''a'' @ [NUL] @ ''b'') [] example_world)
        7 CURLOPT_POSTFIELDSIZE = Some (Long 3)
   \<and> sint (3 :: long) = 3"
  using C6_post_explicit_length [OF example_live, of "''a'' @ [NUL] @ ''b''" example_engine
      "''http://example.org/''" "[]"]
  by (simp add: example_live)

text \<open>
  C7 (as amended).  The public interface has one error class, \<open>HttpError\<close>.  The
  constructor throws it, with the message \<open>curl_global_init failed\<close> or
  \<open>curl_easy_init failed\<close>, exactly when process-wide initialisation or handle allocation
  fails, and then no session is constructed and no handle is acquired; when it does not
  throw, the session is constructed and owns a live handle.  \<open>get\<close> and \<open>post\<close> on a
  session that owns a live handle either return a response or throw \<open>HttpError\<close> with a
  message that begins \<open>curl_easy_perform failed: \<close>.  The two situations differ in the
  message and in the operation that throws, not in the class of the error, and the
  wrapper throws nothing else.
\<close>

theorem C7_one_error_class:
  assumes "m_h (objs w this) = Some p" and "handles w p = Some e"
  shows "fst (HttpClient_ctor env a opt v) =
       (if \<not> g_curl_once v \<and> global_init_rc env \<noteq> 0
        then Some (HttpError ''curl_global_init failed'')
        else if easy_init_ptr env = None then Some (HttpError ''curl_easy_init failed'')
        else None)
    \<and> (fst (HttpClient_ctor env a opt v) \<noteq> None \<longrightarrow>
          constructed (snd (HttpClient_ctor env a opt v)) = constructed v
        \<and> handles (snd (HttpClient_ctor env a opt v)) = handles v)
    \<and> (fst (HttpClient_ctor env a opt v) = None \<longrightarrow>
          a \<in> constructed (snd (HttpClient_ctor env a opt v))
        \<and> (\<exists>q e'. m_h (objs (snd (HttpClient_ctor env a opt v)) a) = Some q
              \<and> handles (snd (HttpClient_ctor env a opt v)) q = Some e'))
    \<and> ((\<exists>r. fst (get env' this url hdrs w) = Inr r)
        \<or> (\<exists>d. fst (get env' this url hdrs w) =
              Inl (HttpError (''curl_easy_perform failed: '' @ d))))
    \<and> ((\<exists>r. fst (post env' this url data hdrs w) = Inr r)
        \<or> (\<exists>d. fst (post env' this url data hdrs w) =
              Inl (HttpError (''curl_easy_perform failed: '' @ d))))
    \<and> HttpError ''curl_global_init failed'' \<noteq> HttpError (''curl_easy_perform failed: '' @ d)
    \<and> HttpError ''curl_easy_init failed'' \<noteq> HttpError (''curl_easy_perform failed: '' @ d)"
proof (intro conjI impI)
  show "fst (HttpClient_ctor env a opt v) =
       (if \<not> g_curl_once v \<and> global_init_rc env \<noteq> 0
        then Some (HttpError ''curl_global_init failed'')
        else if easy_init_ptr env = None then Some (HttpError ''curl_easy_init failed'')
        else None)"
    by (rule HttpClient_ctor_result)
next
  assume f: "fst (HttpClient_ctor env a opt v) \<noteq> None"
  show "constructed (snd (HttpClient_ctor env a opt v)) = constructed v"
    by (rule HttpClient_ctor_failure(1) [OF f])
  show "handles (snd (HttpClient_ctor env a opt v)) = handles v"
    by (rule HttpClient_ctor_failure(2) [OF f])
next
  assume s: "fst (HttpClient_ctor env a opt v) = None"
  from s obtain q where q: "snd (HttpClient_ctor env a opt v) =
      v\<lparr>objs := (objs v)(a := \<lparr>m_h = Some q, m_opt = opt, m_body_acc = [], m_hdr_acc = []\<rparr>),
        g_curl_once := True,
        handles := (handles v)(q \<mapsto> \<lparr>options = baseline_options a opt, response_code = 0\<rparr>),
        constructed := insert a (constructed v)\<rparr>"
    by (rule HttpClient_ctor_success)
  show "a \<in> constructed (snd (HttpClient_ctor env a opt v))"
    by (simp add: q)
  show "\<exists>q e'. m_h (objs (snd (HttpClient_ctor env a opt v)) a) = Some q
      \<and> handles (snd (HttpClient_ctor env a opt v)) q = Some e'"
    by (simp add: q)
next
  show "(\<exists>r. fst (get env' this url hdrs w) = Inr r)
      \<or> (\<exists>d. fst (get env' this url hdrs w) =
            Inl (HttpError (''curl_easy_perform failed: '' @ d)))"
    by (rule request_error_shape(1) [OF assms])
  show "(\<exists>r. fst (post env' this url data hdrs w) = Inr r)
      \<or> (\<exists>d. fst (post env' this url data hdrs w) =
            Inl (HttpError (''curl_easy_perform failed: '' @ d)))"
    by (rule request_error_shape(2) [OF assms])
next
  show "HttpError ''curl_global_init failed'' \<noteq> HttpError (''curl_easy_perform failed: '' @ d)"
    by simp
  show "HttpError ''curl_easy_init failed'' \<noteq> HttpError (''curl_easy_perform failed: '' @ d)"
    by simp
qed

theorem C7_witness:
  "m_h (objs example_world 3) = Some 7 \<and> handles example_world 7 = Some example_easy
   \<and> fst (HttpClient_ctor no_handle_engine 5 Options_default example_world)
       = Some (HttpError ''curl_easy_init failed'')
   \<and> constructed (snd (HttpClient_ctor no_handle_engine 5 Options_default example_world)) = {3}
   \<and> handles (snd (HttpClient_ctor no_handle_engine 5 Options_default example_world))
       = [7 \<mapsto> example_easy]
   \<and> fst (HttpClient_ctor example_engine 5 Options_default example_world) = None
   \<and> 5 \<in> constructed (snd (HttpClient_ctor example_engine 5 Options_default example_world))
   \<and> m_h (objs (snd (HttpClient_ctor example_engine 5 Options_default example_world)) 5) = Some 8
   \<and> fst (get timeout_engine 3 ''http://example.org/'' [] example_world)
       = Inl (HttpError ''curl_easy_perform failed: Timeout was reached'')"
proof -
  have g: "g_curl_once example_world \<or> global_init_rc example_engine = 0"
    and i: "easy_init_ptr example_engine = Some 8"
    by (simp_all add: example_world_def example_engine_def)
  note failing = C7_one_error_class [OF example_live, where env = no_handle_engine and a = 5
      and opt = Options_default and v = example_world and env' = timeout_engine
      and url = "''http://example.org/''" and hdrs = "[]" and data = "[]" and d = "[]"]
  note working = C7_one_error_class [OF example_live, where env = example_engine and a = 5
      and opt = Options_default and v = example_world and env' = timeout_engine
      and url = "''http://example.org/''" and hdrs = "[]" and data = "[]" and d = "[]"]
  have f: "fst (HttpClient_ctor no_handle_engine 5 Options_default example_world)
      = Some (HttpError ''curl_easy_init failed'')"
    by (simp add: example_ctor_fails)
  from failing f
  have "constructed (snd (HttpClient_ctor no_handle_engine 5 Options_default example_world))
        = constructed example_world"
    and "handles (snd (HttpClient_ctor no_handle_engine 5 Options_default example_world))
        = handles example_world"
    by simp_all
  moreover have s: "fst (HttpClient_ctor example_engine 5 Options_default example_world) = None"
    by (simp add: HttpClient_ctor_succeeds [OF g i])
  moreover from working s
  have "5 \<in> constructed (snd (HttpClient_ctor example_engine 5 Options_default example_world))"
    by simp
  moreover
  have "m_h (objs (snd (HttpClient_ctor example_engine 5 Options_default example_world)) 5) = Some 8"
    by (simp add: HttpClient_ctor_succeeds [OF g i])
  ultimately show ?thesis
    using example_live f example_get_times_out
    by (simp add: example_world_def)
qed

text \<open>
  C7 as stated fails: a failed construction and a failed transfer throw errors of the
  same class, \<open>HttpError\<close>; the code has no separate \<open>InitError\<close> and \<open>TransferError\<close>.
\<close>

theorem C7_counterexample:
  "fst (HttpClient_ctor no_handle_engine 5 Options_default example_world)
     = Some (HttpError ''curl_easy_init failed'')
   \<and> fst (get timeout_engine 3 ''http://example.org/'' [] example_world)
     = Inl (HttpError ''curl_easy_perform failed: Timeout was reached'')"
  by (simp add: example_ctor_fails example_get_times_out)

text \<open>
  C8.  Before every request, in \<open>get\<close> and in \<open>post\<close> alike, the handle is reset and the
  baseline options are set on it again: whatever the handle held before, the options in
  force when the transfer is performed are exactly the baseline set (both write
  callbacks bound to this session, the timeout in milliseconds, redirect-following on or
  off, the user-agent only when present and non-empty, peer verification on or off, host
  verification 0 or 2) together with the options of the method and the caller's headers.
\<close>

theorem C8_baseline_before_every_request:
  assumes "m_h (objs w this) = Some p" and "handles w p = Some e"
  shows "get env this url hdrs w =
           perform_with_headers_and_body env this (get_setup this url hdrs w)
    \<and> handle_options (get_setup this url hdrs w) p =
         with_headers hdrs ((baseline_options this (m_opt (objs w this)))
           (CURLOPT_HTTPGET \<mapsto> Long 1, CURLOPT_URL \<mapsto> Str (c_str url)))
    \<and> post env this url data hdrs w =
           perform_with_headers_and_body env this (post_setup this url data hdrs w)
    \<and> handle_options (post_setup this url data hdrs w) p =
         with_headers hdrs ((baseline_options this (m_opt (objs w this)))
           (CURLOPT_POST \<mapsto> Long 1, CURLOPT_URL \<mapsto> Str (c_str url),
            CURLOPT_POSTFIELDS \<mapsto> Data data,
            CURLOPT_POSTFIELDSIZE \<mapsto> Long (word_of_nat (length data))))
    \<and> handle_options (apply_common_options this w) p
         = baseline_options this (m_opt (objs w this))"
proof -
  have "handle_options (apply_common_options this w) p
      = baseline_options this (m_opt (objs w this))"
    by (simp add: apply_common_options_live [OF assms] handle_options_def)
  then show ?thesis
    by (simp add: get_def post_def handle_options_get_setup [OF assms]
        handle_options_post_setup [OF assms])
qed

theorem C8_witness:
  "m_h (objs example_world 3) = Some 7 \<and> handles example_world 7 = Some example_easy
   \<and> handle_options example_world 7 CURLOPT_POSTFIELDS = Some (Data ''stale'')
   \<and> handle_options example_world 7 CURLOPT_WRITEDATA = Some (Ptr 9)
   \<and> handle_options (get_setup 3 ''http://example.org/'' [] example_world) 7 =
       [CURLOPT_WRITEFUNCTION \<mapsto> Fun Write_body_cb, CURLOPT_WRITEDATA \<mapsto> Ptr 3,
        CURLOPT_HEADERFUNCTION \<mapsto> Fun Write_header_cb, CURLOPT_HEADERDATA \<mapsto> Ptr 3,
        CURLOPT_TIMEOUT_MS \<mapsto> Long 15000, CURLOPT_FOLLOWLOCATION \<mapsto> Long 1,
        CURLOPT_USERAGENT \<mapsto> Str ''HttpClient/1.0'', CURLOPT_SSL_VERIFYPEER \<mapsto> Long 1,
        CURLOPT_SSL_VERIFYHOST \<mapsto> Long 2,
        CURLOPT_HTTPGET \<mapsto> Long 1, CURLOPT_URL \<mapsto> Str ''http://example.org/'']
   \<and> handle_options (get_setup 3 ''http://example.org/'' [] example_world) 7 CURLOPT_POSTFIELDS
       = None"
  using C8_baseline_before_every_request [OF example_live, of example_engine
      "''http://example.org/''" "[]" "''a=1''"]
  by (simp add: example_live example_baseline with_headers_def c_str_def NUL_def
      handle_options_def example_easy_def example_world_def example_client_def)

text \<open>
  C9 (as amended).  The model has no operation that copies a session (the copy
  constructor and copy assignment are deleted).  After move-construction, and after
  move-assignment between two distinct sessions, the destination holds the handle the
  source held and the source's handle is null; the handle stays live, destroying the
  moved-from source releases nothing, and destroying the destination releases the
  handle.  Move-assignment first releases the handle the destination held before.
  Move-assigning a session to itself changes nothing: it keeps its handle.
\<close>

theorem C9_move_transfers_ownership:
  assumes "this \<noteq> other" and "m_h (objs w other) = Some p" and "handles w p = Some e"
  shows "m_h (objs (HttpClient_move_ctor this other w) this) = Some p
    \<and> m_h (objs (HttpClient_move_ctor this other w) other) = None
    \<and> handles (HttpClient_move_ctor this other w) = handles w
    \<and> handles (HttpClient_dtor other (HttpClient_move_ctor this other w)) = handles w
    \<and> handles (HttpClient_dtor this (HttpClient_move_ctor this other w)) p = None
    \<and> (m_h (objs w this) \<noteq> Some p \<longrightarrow>
          m_h (objs (HttpClient_move_assign this other w) this) = Some p
        \<and> m_h (objs (HttpClient_move_assign this other w) other) = None
        \<and> handles (HttpClient_move_assign this other w) p = Some e
        \<and> (\<forall>q. m_h (objs w this) = Some q \<longrightarrow>
              handles (HttpClient_move_assign this other w) q = None)
        \<and> handles (HttpClient_dtor other (HttpClient_move_assign this other w))
            = handles (HttpClient_move_assign this other w)
        \<and> handles (HttpClient_dtor this (HttpClient_move_assign this other w)) p = None)
    \<and> HttpClient_move_assign other other w = w"
proof (intro conjI impI allI)
  show "m_h (objs (HttpClient_move_ctor this other w) this) = Some p"
    by (simp add: move_ctor_fields [OF assms(1)] assms(2))
  show "m_h (objs (HttpClient_move_ctor this other w) other) = None"
    by (simp add: move_ctor_fields [OF assms(1)])
  show "handles (HttpClient_move_ctor this other w) = handles w"
    by (simp add: move_ctor_fields [OF assms(1)])
  show "handles (HttpClient_dtor other (HttpClient_move_ctor this other w)) = handles w"
    by (simp add: dtor_handles move_ctor_fields [OF assms(1)])
  show "handles (HttpClient_dtor this (HttpClient_move_ctor this other w)) p = None"
    by (simp add: dtor_handles move_ctor_fields [OF assms(1)] assms(2))
  show "HttpClient_move_assign other other w = w"
    by (simp add: HttpClient_move_assign_def)
next
  assume d: "m_h (objs w this) \<noteq> Some p"
  show "m_h (objs (HttpClient_move_assign this other w) this) = Some p"
    by (simp add: move_assign_fields [OF assms(1)] assms(2))
  show "m_h (objs (HttpClient_move_assign this other w) other) = None"
    by (simp add: move_assign_fields [OF assms(1)])
  show "handles (HttpClient_move_assign this other w) p = Some e"
    using d assms(3) by (simp add: move_assign_fields [OF assms(1)] split: option.splits)
  show "handles (HttpClient_dtor other (HttpClient_move_assign this other w))
      = handles (HttpClient_move_assign this other w)"
    by (simp add: dtor_handles move_assign_fields(2) [OF assms(1)])
  show "handles (HttpClient_dtor this (HttpClient_move_assign this other w)) p = None"
    by (simp add: dtor_handles move_assign_fields(1) [OF assms(1)] assms(2))
next
  fix q
  assume "m_h (objs w this) \<noteq> Some p" and "m_h (objs w this) = Some q"
  then show "handles (HttpClient_move_assign this other w) q = None"
    by (simp add: move_assign_fields [OF assms(1)])
qed

theorem C9_witness:
  "(4::nat) \<noteq> 3 \<and> m_h (objs two_sessions 3) = Some 7
   \<and> handles two_sessions 7 = Some example_easy
   \<and> m_h (objs two_sessions 4) = Some 9 \<and> handles two_sessions 9 = Some fresh_easy
   \<and> m_h (objs (HttpClient_move_assign 4 3 two_sessions) 4) = Some 7
   \<and> m_h (objs (HttpClient_move_assign 4 3 two_sessions) 3) = None
   \<and> handles (HttpClient_move_assign 4 3 two_sessions) 7 = Some example_easy
   \<and> handles (HttpClient_move_assign 4 3 two_sessions) 9 = None
   \<and> handles (HttpClient_dtor 3 (HttpClient_move_assign 4 3 two_sessions)) 7 = Some example_easy
   \<and> handles (HttpClient_dtor 4 (HttpClient_move_assign 4 3 two_sessions)) 7 = None
   \<and> m_h (objs (HttpClient_move_ctor 4 3 two_sessions) 4) = Some 7
   \<and> m_h (objs (HttpClient_move_ctor 4 3 two_sessions) 3) = None"
proof -
  have ne: "(4::nat) \<noteq> 3" by simp
  note inst = C9_move_transfers_ownership [OF ne two_sessions_facts(1,2)]
  have d: "m_h (objs two_sessions 4) \<noteq> Some 7"
    by (simp add: two_sessions_facts)
  from inst d two_sessions_facts(3)
  have "handles (HttpClient_move_assign 4 3 two_sessions) 9 = None"
    by blast
  moreover from inst d
  have "handles (HttpClient_dtor 3 (HttpClient_move_assign 4 3 two_sessions)) 7 = Some example_easy"
    by simp
  ultimately show ?thesis
    using inst d two_sessions_facts by simp
qed

text \<open>
  C9 as stated fails for a session move-assigned to itself: the guard
  \<^verbatim>\<open>this != &other\<close> skips the assignment, and the source is not left empty.
\<close>

theorem C9_counterexample:
  "HttpClient_move_assign 3 3 example_world = example_world
   \<and> m_h (objs (HttpClient_move_assign 3 3 example_world) 3) = Some 7"
  by (simp add: HttpClient_move_assign_def example_live)

text \<open>
  C10.  The default options carry the user-agent \<open>HttpClient/1.0\<close>, which is present and
  not empty.  A session built by the default constructor therefore has it set on its
  handle, and every \<open>get\<close> and \<open>post\<close> on a session whose options are the default ones
  performs its transfer on a handle configured with it, leaves it set on the handle and
  leaves the options as they are, so that the next request does the same: a caller who
  never chose a user-agent sends this one.
\<close>

theorem C10_default_user_agent:
  assumes "HttpClient_default_ctor env this w = (None, w')"
  shows "user_agent Options_default = Some ''HttpClient/1.0''
    \<and> (\<exists>p. m_h (objs w' this) = Some p \<and> m_opt (objs w' this) = Options_default
          \<and> handle_options w' p CURLOPT_USERAGENT = Some (Str ''HttpClient/1.0'')
          \<and> get env' this url hdrs w' =
               perform_with_headers_and_body env' this (get_setup this url hdrs w')
          \<and> handle_options (get_setup this url hdrs w') p CURLOPT_USERAGENT
              = Some (Str ''HttpClient/1.0'')
          \<and> handle_options (snd (get env' this url hdrs w')) p CURLOPT_USERAGENT
              = Some (Str ''HttpClient/1.0'')
          \<and> post env' this url data hdrs w' =
               perform_with_headers_and_body env' this (post_setup this url data hdrs w')
          \<and> handle_options (post_setup this url data hdrs w') p CURLOPT_USERAGENT
              = Some (Str ''HttpClient/1.0'')
          \<and> handle_options (snd (post env' this url data hdrs w')) p CURLOPT_USERAGENT
              = Some (Str ''HttpClient/1.0''))
    \<and> (m_h (objs v a) = Some q \<and> handles v q = Some e \<and> m_opt (objs v a) = Options_default
          \<longrightarrow> get env' a url hdrs v =
                 perform_with_headers_and_body env' a (get_setup a url hdrs v)
            \<and> handle_options (get_setup a url hdrs v) q CURLOPT_USERAGENT
                = Some (Str ''HttpClient/1.0'')
            \<and> handle_options (snd (get env' a url hdrs v)) q CURLOPT_USERAGENT
                = Some (Str ''HttpClient/1.0'')
            \<and> m_opt (objs (snd (get env' a url hdrs v)) a) = Options_default
            \<and> post env' a url data hdrs v =
                 perform_with_headers_and_body env' a (post_setup a url data hdrs v)
            \<and> handle_options (post_setup a url data hdrs v) q CURLOPT_USERAGENT
                = Some (Str ''HttpClient/1.0'')
            \<and> handle_options (snd (post env' a url data hdrs v)) q CURLOPT_USERAGENT
                = Some (Str ''HttpClient/1.0'')
            \<and> m_opt (objs (snd (post env' a url data hdrs v)) a) = Options_default)"
proof (intro conjI impI)
  show "user_agent Options_default = Some ''HttpClient/1.0''"
    by (simp add: Options_default_def)
next
  from assms have f: "fst (HttpClient_ctor env this Options_default w) = None"
    and s: "w' = snd (HttpClient_ctor env this Options_default w)"
    by (simp_all add: HttpClient_default_ctor_def)
  from f obtain p where w': "w' =
      w\<lparr>objs := (objs w)(this :=
          \<lparr>m_h = Some p, m_opt = Options_default, m_body_acc = [], m_hdr_acc = []\<rparr>),
        g_curl_once := True,
        handles := (handles w)(p \<mapsto>
          \<lparr>options = baseline_options this Options_default, response_code = 0\<rparr>),
        constructed := insert this (constructed w)\<rparr>"
    unfolding s by (rule HttpClient_ctor_success)
  have h: "m_h (objs w' this) = Some p"
    and e: "handles w' p = Some \<lparr>options = baseline_options this Options_default, response_code = 0\<rparr>"
    and o: "m_opt (objs w' this) = Options_default"
    by (simp_all add: w')
  have u: "handle_options w' p CURLOPT_USERAGENT = Some (Str ''HttpClient/1.0'')"
    by (simp add: handle_options_def e default_user_agent_baseline)
  from h o u default_session_requests [OF h e o, of env' url hdrs data]
  show "\<exists>p. m_h (objs w' this) = Some p \<and> m_opt (objs w' this) = Options_default
          \<and> handle_options w' p CURLOPT_USERAGENT = Some (Str ''HttpClient/1.0'')
          \<and> get env' this url hdrs w' =
               perform_with_headers_and_body env' this (get_setup this url hdrs w')
          \<and> handle_options (get_setup this url hdrs w') p CURLOPT_USERAGENT
              = Some (Str ''HttpClient/1.0'')
          \<and> handle_options (snd (get env' this url hdrs w')) p CURLOPT_USERAGENT
              = Some (Str ''HttpClient/1.0'')
          \<and> post env' this url data hdrs w' =
               perform_with_headers_and_body env' this (post_setup this url data hdrs w')
          \<and> handle_options (post_setup this url data hdrs w') p CURLOPT_USERAGENT
              = Some (Str ''HttpClient/1.0'')
          \<and> handle_options (snd (post env' this url data hdrs w')) p CURLOPT_USERAGENT
              = Some (Str ''HttpClient/1.0'')"
    by blast
next
  assume "m_h (objs v a) = Some q \<and> handles v q = Some e \<and> m_opt (objs v a) = Options_default"
  then have h: "m_h (objs v a) = Some q" and e: "handles v q = Some e"
    and o: "m_opt (objs v a) = Options_default"
    by simp_all
  note d = default_session_requests [OF h e o, of env' url hdrs data]
  show "get env' a url hdrs v = perform_with_headers_and_body env' a (get_setup a url hdrs v)"
    using d by blast
  show "handle_options (get_setup a url hdrs v) q CURLOPT_USERAGENT = Some (Str ''HttpClient/1.0'')"
    using d by blast
  show "handle_options (snd (get env' a url hdrs v)) q CURLOPT_USERAGENT
      = Some (Str ''HttpClient/1.0'')"
    using d by blast
  show "m_opt (objs (snd (get env' a url hdrs v)) a) = Options_default"
    using d by blast
  show "post env' a url data hdrs v =
      perform_with_headers_and_body env' a (post_setup a url data hdrs v)"
    using d by blast
  show "handle_options (post_setup a url data hdrs v) q CURLOPT_USERAGENT
      = Some (Str ''HttpClient/1.0'')"
    using d by blast
  show "handle_options (snd (post env' a url data hdrs v)) q CURLOPT_USERAGENT
      = Some (Str ''HttpClient/1.0'')"
    using d by blast
  show "m_opt (objs (snd (post env' a url data hdrs v)) a) = Options_default"
    using d by blast
qed

theorem C10_witness:
  "HttpClient_default_ctor example_engine 5 example_world =
     (None, snd (HttpClient_default_ctor example_engine 5 example_world))
   \<and> m_h (objs (snd (HttpClient_default_ctor example_engine 5 example_world)) 5) = Some 8
   \<and> handle_options (snd (get example_engine 5 ''http://example.org/'' []
        (snd (HttpClient_default_ctor example_engine 5 example_world)))) 8 CURLOPT_USERAGENT
       = Some (Str ''HttpClient/1.0'')
   \<and> m_h (objs example_world 3) = Some 7 \<and> handles example_world 7 = Some example_easy
   \<and> m_opt (objs example_world 3) = Options_default
   \<and> handle_options example_world 7 CURLOPT_USERAGENT = None
   \<and> fst (get example_engine 3 ''http://example.org/'' [] example_world) = Inr example_response
   \<and> handle_options (get_setup 3 ''http://example.org/'' [] example_world) 7 CURLOPT_USERAGENT
       = Some (Str ''HttpClient/1.0'')
   \<and> handle_options (snd (get example_engine 3 ''http://example.org/'' [] example_world)) 7
        CURLOPT_USERAGENT = Some (Str ''HttpClient/1.0'')
   \<and> fst (post example_engine 3 ''http://example.org/'' ''a=1'' [] example_world)
       = Inr example_response
   \<and> handle_options (snd (post example_engine 3 ''http://example.org/'' ''a=1'' []
        example_world)) 7 CURLOPT_USERAGENT = Some (Str ''HttpClient/1.0'')"
proof -
  have g: "g_curl_once example_world \<or> global_init_rc example_engine = 0"
    and i: "easy_init_ptr example_engine = Some 8"
    by (simp_all add: example_world_def example_engine_def)
  have c: "HttpClient_default_ctor example_engine 5 example_world =
     (None, snd (HttpClient_default_ctor example_engine 5 example_world))"
    and h: "m_h (objs (snd (HttpClient_default_ctor example_engine 5 example_world)) 5) = Some 8"
    by (simp_all add: HttpClient_default_ctor_def HttpClient_ctor_succeeds [OF g i])
  have o: "m_opt (objs example_world 3) = Options_default"
    "handle_options example_world 7 CURLOPT_USERAGENT = None"
    by (simp_all add: example_world_def example_client_def handle_options_def example_easy_def)
  note inst = C10_default_user_agent [OF c, where env' = example_engine
      and url = "''http://example.org/''" and hdrs = "[]" and data = "''a=1''"
      and v = example_world and a = 3 and q = 7 and e = example_easy]
  from inst h have "handle_options (snd (get example_engine 5 ''http://example.org/'' []
        (snd (HttpClient_default_ctor example_engine 5 example_world)))) 8 CURLOPT_USERAGENT
       = Some (Str ''HttpClient/1.0'')"
    by auto
  moreover from inst example_live o(1)
  have "handle_options (get_setup 3 ''http://example.org/'' [] example_world) 7 CURLOPT_USERAGENT
       = Some (Str ''HttpClient/1.0'')"
    "handle_options (snd (get example_engine 3 ''http://example.org/'' [] example_world)) 7
        CURLOPT_USERAGENT = Some (Str ''HttpClient/1.0'')"
    "handle_options (snd (post example_engine 3 ''http://example.org/'' ''a=1'' []
        example_world)) 7 CURLOPT_USERAGENT = Some (Str ''HttpClient/1.0'')"
    by blast+
  ultimately show ?thesis
    using c h o example_live example_engine_requests [OF example_live]
    by simp
qed

end
